theory Spec2Isabelle
  imports Main "HOL-Library.Word"
begin

section \<open>Data model\<close>

text \<open>
  The source consists of the capture dispatcher (\<^verbatim>\<open>screencopy_create\<close>, \<^verbatim>\<open>screencopy_start\<close>,
  ...) and of two protocol backends that both call themselves \<^verbatim>\<open>ext_screencopy\<close>: the
  session-oriented dialect, where the buffer is attached to the long-lived session object and
  committed, and the frame-based dialect, where every capture is a short-lived frame object.
  Definitions that exist in both backends carry the suffix \<open>_ses\<close> or \<open>_frm\<close>; functions whose
  text is the same in both are defined once, on the extensible record.

  Pointers are natural numbers (addresses), a nullable pointer is an \<open>option\<close>. The C code talks
  to three collaborators whose code is not part of the sources: the compositor (protocol
  requests), the buffer pool and the downstream consumer (callbacks). Every call to one of them is
  recorded, in program order, in a list of \<open>call\<close>s that each operation returns next to the new
  state; what the collaborators answer is read from an \<open>env\<close> record.
\<close>

type_synonym u32 = "32 word"
type_synonym s16 = "16 word"

datatype abort = Assertion_failed

datatype screencopy_result = SCREENCOPY_DONE | SCREENCOPY_FAILED

datatype wv_buffer_domain = WV_BUFFER_DOMAIN_OUTPUT | WV_BUFFER_DOMAIN_CURSOR

datatype wv_buffer_type = WV_BUFFER_UNSPEC | WV_BUFFER_SHM | WV_BUFFER_DMABUF

text \<open>The option bits of the two protocol headers; \<open>options |= X\<close> on \<open>0\<close> is the list \<open>[X]\<close>.\<close>

datatype manager_option = OPTIONS_RENDER_CURSORS | OPTIONS_PAINT_CURSORS

datatype session_option = OPTIONS_ON_DAMAGE

text \<open>
  The failure reasons of the two protocol headers. The code names one enumerator of each and
  treats every other value alike.
\<close>

datatype session_failure_reason =
  SESSION_FAILURE_REASON_INVALID_BUFFER | SESSION_FAILURE_REASON_OTHER nat

datatype frame_failure_reason =
  FRAME_FAILURE_REASON_BUFFER_CONSTRAINTS | FRAME_FAILURE_REASON_OTHER nat

record pixman_box16 =
  x1 :: s16
  y1 :: s16
  x2 :: s16
  y2 :: s16

text \<open>
  A rectangle as the protocol reports it (x, y, width, height), and \<^verbatim>\<open>struct wv_buffer\<close>, as far
  as the backends touch it. \<open>addr\<close> is the address of the buffer object, that is, the identity
  of the reference the pool handed out. \<open>buffer_damage\<close> is the requested damage, which the
  backends enumerate box by box; \<open>frame_damage\<close> is the frame damage, which they only hand to
  the pool's own functions, as the list of rectangles added to it.
\<close>

type_synonym rect = "u32 \<times> u32 \<times> u32 \<times> u32"

record wv_buffer =
  addr :: nat
  wl_buffer :: nat
  nvnc_fb :: nat
  domain :: wv_buffer_domain
  buffer_damage :: "pixman_box16 list"
  frame_damage :: "rect list"

datatype impl_id = EXT_SCREENCOPY_IMPL | WLR_SCREENCOPY_IMPL

text \<open>
  \<^verbatim>\<open>struct screencopy\<close>, the part of a handle every backend shares. An optional callback is a
  flag saying whether the function pointer is set; \<^verbatim>\<open>on_done\<close> is called unconditionally.
\<close>

record screencopy =
  impl :: "impl_id option"
  rate_limit :: nat
  enable_linux_dmabuf :: bool
  cursor_enter :: bool
  cursor_leave :: bool
  cursor_hotspot :: bool

text \<open>\<^verbatim>\<open>struct ext_screencopy\<close> of the session dialect.\<close>

record ext_screencopy =
  parent :: screencopy
  wl_output :: nat
  session :: "nat option"
  cursor :: "nat option"
  render_cursors :: bool
  pool :: "nat option"
  buffer :: "wv_buffer option"
  have_buffer_info :: bool
  should_start :: bool
  shall_be_immediate :: bool
  capture_cursor :: bool
  width :: u32
  height :: u32
  wl_shm_stride :: u32
  wl_shm_format :: u32
  have_wl_shm :: bool
  have_linux_dmabuf :: bool
  dmabuf_format :: u32

text \<open>\<^verbatim>\<open>struct ext_screencopy\<close> of the frame dialect: the same fields and the frame in flight.\<close>

record ext_screencopy_f = ext_screencopy +
  frame :: "nat option"

text \<open>
  What the collaborators answer during one operation: whether \<^verbatim>\<open>calloc\<close> succeeds, the objects
  the pool and the compositor return (\<open>None\<close> for a null pointer), the buffer the pool's
  \<^verbatim>\<open>acquire\<close> hands out, and the build option \<^verbatim>\<open>ENABLE_SCREENCOPY_DMABUF\<close>. The pool's
  \<^verbatim>\<open>acquire\<close> always hands out a buffer: the backends use its result unchecked.
\<close>

record env =
  calloc_ok :: bool
  new_pool :: "nat option"
  new_source :: "nat option"
  new_session :: "nat option"
  new_cursor :: "nat option"
  new_frame :: "nat option"
  acquired :: wv_buffer
  ENABLE_SCREENCOPY_DMABUF :: bool

datatype call =
    Frame_destroy nat
  | Session_destroy nat
  | Create_source nat "nat option"
  | Create_session nat "manager_option list" "nat option"
  | Capture nat "manager_option list" "nat option"
  | Capture_cursor nat "manager_option list" "nat option"
  | Cursor_get_screencopy_session nat "nat option"
  | Source_destroy nat
  | Session_add_listener nat
  | Cursor_add_listener nat
  | Pool_create "nat option"
  | Pool_destroy nat
  | Pool_acquire nat
  | Pool_release nat
  | Pool_resize wv_buffer_type u32 u32 u32 u32
  | Create_frame "nat option" "nat option"
  | Frame_attach_buffer nat nat
  | Frame_add_listener nat
  | Frame_damage_buffer nat u32 u32 u32 u32
  | Frame_capture nat
  | Session_attach_buffer "nat option" nat
  | Session_damage_buffer "nat option" u32 u32 u32 u32
  | Session_commit "nat option" "session_option list"
  | Registry_damage_all "rect list" wv_buffer_domain
  | Region_clear nat
  | Set_transform nat u32
  | Damage_rect "nat option" u32 u32 u32 u32
  | On_done screencopy_result "wv_buffer option"
  | Cursor_enter_cb
  | Cursor_leave_cb
  | Cursor_hotspot_cb int int
  | Nvnc_log string
  | Nvnc_log_committed bool nat
  | Free

type_synonym 'a outcome = "abort + ('a \<times> call list)"

definition capture_domain :: "'a ext_screencopy_scheme \<Rightarrow> wv_buffer_domain" where
  "capture_domain self =
     (if capture_cursor self then WV_BUFFER_DOMAIN_CURSOR else WV_BUFFER_DOMAIN_OUTPUT)"

text \<open>The rectangle hint of one box: \<^verbatim>\<open>uint32_t x = rects[i].x1; width = rects[i].x2 - x\<close>.\<close>

definition box_x :: "pixman_box16 \<Rightarrow> u32" where
  "box_x r = scast (x1 r)"

definition box_y :: "pixman_box16 \<Rightarrow> u32" where
  "box_y r = scast (y1 r)"

definition box_width :: "pixman_box16 \<Rightarrow> u32" where
  "box_width r = scast (x2 r) - box_x r"

definition box_height :: "pixman_box16 \<Rightarrow> u32" where
  "box_height r = scast (y2 r) - box_y r"

text \<open>
  Modelled from the spec: \<^verbatim>\<open>wv_buffer_damage_rect\<close>, the pool's function the damage handlers call;
  its code is not part of the sources. The spec has every incoming damage rectangle forwarded
  to the attached buffer, whose frame damage is the union of the rectangles observed dirty: the
  rectangle is added to the frame damage of the buffer, if there is one.
\<close>

definition wv_buffer_damage_rect ::
  "wv_buffer option \<Rightarrow> u32 \<Rightarrow> u32 \<Rightarrow> u32 \<Rightarrow> u32 \<Rightarrow> wv_buffer option" where
  "wv_buffer_damage_rect bo x y w h =
     map_option (\<lambda>b. b\<lparr>frame_damage := frame_damage b @ [(x, y, w, h)]\<rparr>) bo"

section \<open>Handlers that read the same in both backends\<close>

definition session_handle_format_shm ::
  "'a ext_screencopy_scheme \<Rightarrow> u32 \<Rightarrow> 'a ext_screencopy_scheme" where
  "session_handle_format_shm self format =
     self\<lparr>have_wl_shm := True, wl_shm_format := format\<rparr>"

definition session_handle_format_drm ::
  "env \<Rightarrow> 'a ext_screencopy_scheme \<Rightarrow> u32 \<Rightarrow> 'a ext_screencopy_scheme" where
  "session_handle_format_drm e self format =
     (if ENABLE_SCREENCOPY_DMABUF e
      then self\<lparr>have_linux_dmabuf := True, dmabuf_format := format\<rparr>
      else self)"

definition session_handle_dimensions ::
  "'a ext_screencopy_scheme \<Rightarrow> u32 \<Rightarrow> u32 \<Rightarrow> 'a ext_screencopy_scheme" where
  "session_handle_dimensions self w h =
     self\<lparr>width := w, height := h, wl_shm_stride := w * 4\<rparr>"

text \<open>
  The Pool call that ends a negotiation: hardware buffers when the build, the compositor and
  the caller all allow them, shared memory with the recorded stride otherwise.
\<close>

definition constraints_resize :: "env \<Rightarrow> 'a ext_screencopy_scheme \<Rightarrow> call" where
  "constraints_resize e self =
     (if ENABLE_SCREENCOPY_DMABUF e \<and> have_linux_dmabuf self
         \<and> enable_linux_dmabuf (parent self)
      then Pool_resize WV_BUFFER_DMABUF (width self) (height self) 0 (dmabuf_format self)
      else Pool_resize WV_BUFFER_SHM (width self) (height self)
             (wl_shm_stride self) (wl_shm_format self))"

definition cursor_handle_enter :: "'a ext_screencopy_scheme \<Rightarrow> call list" where
  "cursor_handle_enter self = (if cursor_enter (parent self) then [Cursor_enter_cb] else [])"

definition cursor_handle_leave :: "'a ext_screencopy_scheme \<Rightarrow> call list" where
  "cursor_handle_leave self = (if cursor_leave (parent self) then [Cursor_leave_cb] else [])"

definition cursor_handle_position :: "'a ext_screencopy_scheme \<Rightarrow> int \<Rightarrow> int \<Rightarrow> call list" where
  "cursor_handle_position self x y = []"

definition cursor_handle_hotspot :: "'a ext_screencopy_scheme \<Rightarrow> int \<Rightarrow> int \<Rightarrow> call list" where
  "cursor_handle_hotspot self x y =
     (if cursor_hotspot (parent self) then [Cursor_hotspot_cb x y] else [])"

definition ext_screencopy_stop :: "'a ext_screencopy_scheme \<Rightarrow> 'a ext_screencopy_scheme" where
  "ext_screencopy_stop self = self"

section \<open>The frame dialect\<close>

definition ext_screencopy_init_session_frm ::
  "env \<Rightarrow> ext_screencopy_f \<Rightarrow> ext_screencopy_f \<times> int \<times> call list" where
  "ext_screencopy_init_session_frm e self =
     (let c1 = (case frame self of Some f \<Rightarrow> [Frame_destroy f] | None \<Rightarrow> []);
          c2 = (case session self of Some s \<Rightarrow> [Session_destroy s] | None \<Rightarrow> []);
          self1 = self\<lparr>session := None, frame := None\<rparr>
      in case new_source e of
           None \<Rightarrow> (self1, -1, c1 @ c2 @ [Create_source (wl_output self) None])
         | Some source \<Rightarrow>
             (let options = (if render_cursors self then [OPTIONS_PAINT_CURSORS] else []);
                  self2 = self1\<lparr>session := new_session e\<rparr>;
                  c3 = [Create_source (wl_output self) (Some source),
                        Create_session source options (new_session e),
                        Source_destroy source]
              in (case new_session e of
                    None \<Rightarrow> (self2, -1, c1 @ c2 @ c3)
                  | Some s \<Rightarrow> (self2, 0, c1 @ c2 @ c3 @ [Session_add_listener s]))))"

definition ext_screencopy_schedule_capture_frm ::
  "env \<Rightarrow> ext_screencopy_f \<Rightarrow> bool \<Rightarrow> ext_screencopy_f outcome" where
  "ext_screencopy_schedule_capture_frm e self immediate =
     (if frame self \<noteq> None then Inl Assertion_failed
      else
        let b = (acquired e)\<lparr>domain := capture_domain self\<rparr>;
            self1 = self\<lparr>buffer := Some b\<rparr>
        in case new_frame e of
             None \<Rightarrow> Inl Assertion_failed
           | Some f \<Rightarrow>
               Inr (self1\<lparr>frame := Some f\<rparr>,
                    [Pool_acquire (addr b),
                     Create_frame (session self) (Some f),
                     Frame_attach_buffer f (wl_buffer b),
                     Frame_add_listener f]
                    @ map (\<lambda>r. Frame_damage_buffer f (box_x r) (box_y r)
                                  (box_width r) (box_height r)) (buffer_damage b)
                    @ [Frame_capture f, Nvnc_log_committed immediate (addr b)]))"

definition session_handle_constraints_done_frm ::
  "env \<Rightarrow> ext_screencopy_f \<Rightarrow> ext_screencopy_f outcome" where
  "session_handle_constraints_done_frm e self =
     (if should_start self then
        (case ext_screencopy_schedule_capture_frm e self (shall_be_immediate self) of
           Inl a \<Rightarrow> Inl a
         | Inr (self1, c) \<Rightarrow>
             Inr (self1\<lparr>should_start := False, shall_be_immediate := False,
                        have_buffer_info := True\<rparr>,
                  constraints_resize e self # c @ [Nvnc_log ''Init done'']))
      else Inr (self\<lparr>have_buffer_info := True\<rparr>,
                [constraints_resize e self, Nvnc_log ''Init done'']))"

definition frame_handle_transform ::
  "ext_screencopy_f \<Rightarrow> u32 \<Rightarrow> ext_screencopy_f outcome" where
  "frame_handle_transform self transform =
     (case buffer self of
        None \<Rightarrow> Inl Assertion_failed
      | Some b \<Rightarrow> Inr (self, [Set_transform (nvnc_fb b) transform]))"

definition frame_handle_ready ::
  "ext_screencopy_f \<Rightarrow> nat \<Rightarrow> ext_screencopy_f outcome" where
  "frame_handle_ready self fr =
     (if frame self \<noteq> Some fr then Inl Assertion_failed
      else case buffer self of
        None \<Rightarrow> Inl Assertion_failed
      | Some b \<Rightarrow>
          Inr (self\<lparr>buffer := None, frame := None\<rparr>,
               [Frame_destroy fr, Nvnc_log ''Ready!'',
                Registry_damage_all (frame_damage b) (capture_domain self),
                Region_clear (addr b),
                On_done SCREENCOPY_DONE (Some (b\<lparr>buffer_damage := []\<rparr>))]))"

definition frame_handle_failed ::
  "env \<Rightarrow> ext_screencopy_f \<Rightarrow> nat \<Rightarrow> frame_failure_reason \<Rightarrow> ext_screencopy_f outcome" where
  "frame_handle_failed e self fr reason =
     (if frame self \<noteq> Some fr then Inl Assertion_failed
      else case buffer self of
        None \<Rightarrow> Inl Assertion_failed
      | Some b \<Rightarrow>
          let self1 = self\<lparr>buffer := None, frame := None\<rparr>;
              c1 = [Frame_destroy fr, Nvnc_log ''Failed!'', Pool_release (addr b)]
          in if reason = FRAME_FAILURE_REASON_BUFFER_CONSTRAINTS then
               (case ext_screencopy_init_session_frm e self1 of
                  (self2, rc, c2) \<Rightarrow>
                    Inr (self2, c1 @ c2 @ [On_done SCREENCOPY_FAILED None]))
             else Inr (self1, c1 @ [On_done SCREENCOPY_FAILED None]))"

definition frame_handle_damage ::
  "ext_screencopy_f \<Rightarrow> u32 \<Rightarrow> u32 \<Rightarrow> u32 \<Rightarrow> u32 \<Rightarrow> ext_screencopy_f \<times> call list" where
  "frame_handle_damage self x y w h =
     (self\<lparr>buffer := wv_buffer_damage_rect (buffer self) x y w h\<rparr>,
      [Damage_rect (map_option addr (buffer self)) x y w h])"

definition ext_screencopy_start_frm ::
  "env \<Rightarrow> ext_screencopy_f \<Rightarrow> bool \<Rightarrow> abort + (ext_screencopy_f \<times> int \<times> call list)" where
  "ext_screencopy_start_frm e self immediate =
     (if \<not> have_buffer_info self
      then Inr (self\<lparr>should_start := True, shall_be_immediate := immediate\<rparr>, 0, [])
      else case ext_screencopy_schedule_capture_frm e self immediate of
             Inl a \<Rightarrow> Inl a
           | Inr (self1, c) \<Rightarrow> Inr (self1, 0, c))"

definition ext_screencopy_destroy_frm :: "ext_screencopy_f \<Rightarrow> call list" where
  "ext_screencopy_destroy_frm self =
     (case frame self of Some f \<Rightarrow> [Frame_destroy f] | None \<Rightarrow> [])
     @ (case session self of Some s \<Rightarrow> [Session_destroy s] | None \<Rightarrow> [])
     @ (case buffer self of Some b \<Rightarrow> [Pool_release (addr b)] | None \<Rightarrow> [])
     @ [Free]"

text \<open>The zeroed object \<^verbatim>\<open>calloc\<close> returns.\<close>

definition calloc_screencopy :: screencopy where
  "calloc_screencopy =
     \<lparr>impl = None, rate_limit = 0, enable_linux_dmabuf = False,
      cursor_enter = False, cursor_leave = False, cursor_hotspot = False\<rparr>"

definition calloc_frm :: ext_screencopy_f where
  "calloc_frm =
     \<lparr>parent = calloc_screencopy, wl_output = 0, session = None, cursor = None,
      render_cursors = False, pool = None, buffer = None, have_buffer_info = False,
      should_start = False, shall_be_immediate = False, capture_cursor = False,
      width = 0, height = 0, wl_shm_stride = 0, wl_shm_format = 0,
      have_wl_shm = False, have_linux_dmabuf = False, dmabuf_format = 0,
      frame = None\<rparr>"

definition ext_screencopy_create_frm ::
  "env \<Rightarrow> nat \<Rightarrow> bool \<Rightarrow> ext_screencopy_f option \<times> call list" where
  "ext_screencopy_create_frm e output render_cursor =
     (if \<not> calloc_ok e then (None, [])
      else
        let self = calloc_frm\<lparr>parent := (parent calloc_frm)\<lparr>impl := Some EXT_SCREENCOPY_IMPL,
                                                             rate_limit := 30\<rparr>,
                              wl_output := output, render_cursors := render_cursor\<rparr>
        in case new_pool e of
             None \<Rightarrow> (None, [Pool_create None, Free])
           | Some p \<Rightarrow>
               (case ext_screencopy_init_session_frm e (self\<lparr>pool := Some p\<rparr>) of
                  (self1, rc, c) \<Rightarrow>
                    if rc < 0
                    then (None, Pool_create (Some p) # c @ [Pool_destroy p, Free])
                    else (Some self1, Pool_create (Some p) # c)))"

definition ext_screencopy_create_cursor_frm ::
  "env \<Rightarrow> nat \<Rightarrow> ext_screencopy_f option \<times> call list" where
  "ext_screencopy_create_cursor_frm e output =
     (if \<not> calloc_ok e then (None, [])
      else
        let self = calloc_frm\<lparr>parent := (parent calloc_frm)\<lparr>impl := Some EXT_SCREENCOPY_IMPL,
                                                             rate_limit := 30\<rparr>,
                              wl_output := output, capture_cursor := True\<rparr>
        in case new_pool e of
             None \<Rightarrow> (None, [Pool_create None, Free])
           | Some p \<Rightarrow>
               (case ext_screencopy_init_session_frm e (self\<lparr>pool := Some p\<rparr>) of
                  (self1, rc, c) \<Rightarrow>
                    if rc < 0
                    then (None, Pool_create (Some p) # c @ [Pool_destroy p, Free])
                    else (Some self1, Pool_create (Some p) # c)))"

text \<open>
  One protocol event or one call of the interface, and a whole history of them. A history
  stops at the first failed assertion. The completion callback is the last statement of the
  handlers that invoke it, so a call the consumer makes from inside the callback sees the state
  the handler returns, and is the next element of the history.
\<close>

datatype event_frm =
    Start_frm bool
  | Stop_frm
  | Format_shm_frm u32
  | Format_drm_frm u32
  | Dmabuf_device_frm
  | Dimensions_frm u32 u32
  | Constraints_done_frm
  | Stopped_frm
  | Transform_frm u32
  | Ready_frm nat
  | Failed_frm nat frame_failure_reason
  | Damage_frm u32 u32 u32 u32
  | Presentation_time_frm

fun step_frm :: "env \<Rightarrow> event_frm \<Rightarrow> ext_screencopy_f \<Rightarrow> ext_screencopy_f outcome" where
  "step_frm e (Start_frm immediate) self =
     (case ext_screencopy_start_frm e self immediate of
        Inl a \<Rightarrow> Inl a
      | Inr (self1, status, c) \<Rightarrow> Inr (self1, c))"
| "step_frm e Stop_frm self = Inr (ext_screencopy_stop self, [])"
| "step_frm e (Format_shm_frm format) self = Inr (session_handle_format_shm self format, [])"
| "step_frm e (Format_drm_frm format) self = Inr (session_handle_format_drm e self format, [])"
| "step_frm e Dmabuf_device_frm self = Inr (self, [])"
| "step_frm e (Dimensions_frm w h) self = Inr (session_handle_dimensions self w h, [])"
| "step_frm e Constraints_done_frm self = session_handle_constraints_done_frm e self"
| "step_frm e Stopped_frm self = Inr (self, [])"
| "step_frm e (Transform_frm t) self = frame_handle_transform self t"
| "step_frm e (Ready_frm fr) self = frame_handle_ready self fr"
| "step_frm e (Failed_frm fr reason) self = frame_handle_failed e self fr reason"
| "step_frm e (Damage_frm x y w h) self = Inr (frame_handle_damage self x y w h)"
| "step_frm e Presentation_time_frm self = Inr (self, [])"

fun run_frm :: "(env \<times> event_frm) list \<Rightarrow> ext_screencopy_f \<Rightarrow> ext_screencopy_f outcome" where
  "run_frm [] self = Inr (self, [])"
| "run_frm ((e, ev) # rest) self =
     (case step_frm e ev self of
        Inl a \<Rightarrow> Inl a
      | Inr (self1, c1) \<Rightarrow>
          (case run_frm rest self1 of
             Inl a \<Rightarrow> Inl a
           | Inr (self2, c2) \<Rightarrow> Inr (self2, c1 @ c2)))"

section \<open>The session dialect\<close>

definition ext_screencopy_init_session_ses ::
  "env \<Rightarrow> ext_screencopy \<Rightarrow> ext_screencopy \<times> int \<times> call list" where
  "ext_screencopy_init_session_ses e self =
     (let c1 = (case session self of Some s \<Rightarrow> [Session_destroy s] | None \<Rightarrow> [])
      in case new_source e of
           None \<Rightarrow> (self, -1, c1 @ [Create_source (wl_output self) None])
         | Some source \<Rightarrow>
             (let options = (if render_cursors self then [OPTIONS_RENDER_CURSORS] else []);
                  c2 = c1 @ [Create_source (wl_output self) (Some source)]
              in if capture_cursor self then
                   (case new_cursor e of
                      None \<Rightarrow>
                        (self\<lparr>cursor := None\<rparr>, -1,
                         c2 @ [Capture_cursor source options None, Source_destroy source])
                    | Some cu \<Rightarrow>
                        (let self1 = self\<lparr>cursor := Some cu, session := new_session e\<rparr>;
                             c3 = c2 @ [Capture_cursor source options (Some cu),
                                        Source_destroy source,
                                        Cursor_get_screencopy_session cu (new_session e)]
                         in (case new_session e of
                               None \<Rightarrow> (self1, -1, c3)
                             | Some s \<Rightarrow>
                                 (self1, 0,
                                  c3 @ [Session_add_listener s, Cursor_add_listener cu]))))
                 else
                   (let self1 = self\<lparr>session := new_session e\<rparr>;
                        c3 = c2 @ [Capture source options (new_session e),
                                   Source_destroy source]
                    in (case new_session e of
                          None \<Rightarrow> (self1, -1, c3)
                        | Some s \<Rightarrow> (self1, 0, c3 @ [Session_add_listener s])))))"

definition ext_screencopy_schedule_capture_ses ::
  "env \<Rightarrow> ext_screencopy \<Rightarrow> bool \<Rightarrow> ext_screencopy \<times> call list" where
  "ext_screencopy_schedule_capture_ses e self immediate =
     (let b = (acquired e)\<lparr>domain := capture_domain self\<rparr>
      in (self\<lparr>buffer := Some b\<rparr>,
          [Pool_acquire (addr b),
           Session_attach_buffer (session self) (wl_buffer b)]
          @ map (\<lambda>r. Session_damage_buffer (session self) (box_x r) (box_y r)
                        (box_width r) (box_height r)) (buffer_damage b)
          @ [Session_commit (session self) (if \<not> immediate then [OPTIONS_ON_DAMAGE] else []),
             Nvnc_log_committed immediate (addr b)]))"

definition session_handle_constraints_done_ses ::
  "env \<Rightarrow> ext_screencopy \<Rightarrow> ext_screencopy \<times> call list" where
  "session_handle_constraints_done_ses e self =
     (if should_start self then
        (case ext_screencopy_schedule_capture_ses e self (shall_be_immediate self) of
           (self1, c) \<Rightarrow>
             (self1\<lparr>should_start := False, shall_be_immediate := False,
                    have_buffer_info := True\<rparr>,
              constraints_resize e self # c @ [Nvnc_log ''Init done'']))
      else (self\<lparr>have_buffer_info := True\<rparr>,
            [constraints_resize e self, Nvnc_log ''Init done'']))"

definition session_handle_transform ::
  "ext_screencopy \<Rightarrow> u32 \<Rightarrow> ext_screencopy outcome" where
  "session_handle_transform self transform =
     (case buffer self of
        None \<Rightarrow> Inl Assertion_failed
      | Some b \<Rightarrow> Inr (self, [Set_transform (nvnc_fb b) transform]))"

definition session_handle_ready :: "ext_screencopy \<Rightarrow> ext_screencopy outcome" where
  "session_handle_ready self =
     (case buffer self of
        None \<Rightarrow> Inl Assertion_failed
      | Some b \<Rightarrow>
          Inr (self\<lparr>buffer := None\<rparr>,
               [Nvnc_log ''Ready!'',
                Registry_damage_all (frame_damage b) (capture_domain self),
                Region_clear (addr b),
                On_done SCREENCOPY_DONE (Some (b\<lparr>buffer_damage := []\<rparr>))]))"

definition session_handle_failed ::
  "env \<Rightarrow> ext_screencopy \<Rightarrow> session_failure_reason \<Rightarrow> ext_screencopy outcome" where
  "session_handle_failed e self reason =
     (case buffer self of
        None \<Rightarrow> Inl Assertion_failed
      | Some b \<Rightarrow>
          let self1 = self\<lparr>buffer := None\<rparr>;
              c1 = [Nvnc_log ''Failed!'', Pool_release (addr b)]
          in if reason = SESSION_FAILURE_REASON_INVALID_BUFFER then
               (case ext_screencopy_init_session_ses e self1 of
                  (self2, rc, c2) \<Rightarrow>
                    Inr (self2, c1 @ c2 @ [On_done SCREENCOPY_FAILED None]))
             else Inr (self1, c1 @ [On_done SCREENCOPY_FAILED None]))"

definition session_handle_damage ::
  "ext_screencopy \<Rightarrow> u32 \<Rightarrow> u32 \<Rightarrow> u32 \<Rightarrow> u32 \<Rightarrow> ext_screencopy \<times> call list" where
  "session_handle_damage self x y w h =
     (self\<lparr>buffer := wv_buffer_damage_rect (buffer self) x y w h\<rparr>,
      [Damage_rect (map_option addr (buffer self)) x y w h])"

definition ext_screencopy_start_ses ::
  "env \<Rightarrow> ext_screencopy \<Rightarrow> bool \<Rightarrow> abort + (ext_screencopy \<times> int \<times> call list)" where
  "ext_screencopy_start_ses e self immediate =
     (if \<not> have_buffer_info self
      then Inr (self\<lparr>should_start := True, shall_be_immediate := immediate\<rparr>, 0, [])
      else case ext_screencopy_schedule_capture_ses e self immediate of
             (self1, c) \<Rightarrow> Inr (self1, 0, c))"

definition ext_screencopy_destroy_ses :: "ext_screencopy \<Rightarrow> call list" where
  "ext_screencopy_destroy_ses self =
     (case session self of Some s \<Rightarrow> [Session_destroy s] | None \<Rightarrow> [])
     @ (case buffer self of Some b \<Rightarrow> [Pool_release (addr b)] | None \<Rightarrow> [])
     @ [Free]"

definition calloc_ses :: ext_screencopy where
  "calloc_ses =
     \<lparr>parent = calloc_screencopy, wl_output = 0, session = None, cursor = None,
      render_cursors = False, pool = None, buffer = None, have_buffer_info = False,
      should_start = False, shall_be_immediate = False, capture_cursor = False,
      width = 0, height = 0, wl_shm_stride = 0, wl_shm_format = 0,
      have_wl_shm = False, have_linux_dmabuf = False, dmabuf_format = 0\<rparr>"

definition ext_screencopy_create_ses ::
  "env \<Rightarrow> nat \<Rightarrow> bool \<Rightarrow> ext_screencopy option \<times> call list" where
  "ext_screencopy_create_ses e output render_cursor =
     (if \<not> calloc_ok e then (None, [])
      else
        let self = calloc_ses\<lparr>parent := (parent calloc_ses)\<lparr>impl := Some EXT_SCREENCOPY_IMPL,
                                                             rate_limit := 30\<rparr>,
                              wl_output := output, render_cursors := render_cursor\<rparr>
        in case new_pool e of
             None \<Rightarrow> (None, [Pool_create None, Free])
           | Some p \<Rightarrow>
               (case ext_screencopy_init_session_ses e (self\<lparr>pool := Some p\<rparr>) of
                  (self1, rc, c) \<Rightarrow>
                    if rc < 0
                    then (None, Pool_create (Some p) # c @ [Pool_destroy p, Free])
                    else (Some self1, Pool_create (Some p) # c)))"

definition ext_screencopy_create_cursor_ses ::
  "env \<Rightarrow> nat \<Rightarrow> ext_screencopy option \<times> call list" where
  "ext_screencopy_create_cursor_ses e output =
     (if \<not> calloc_ok e then (None, [])
      else
        let self = calloc_ses\<lparr>parent := (parent calloc_ses)\<lparr>impl := Some EXT_SCREENCOPY_IMPL,
                                                             rate_limit := 30\<rparr>,
                              wl_output := output, capture_cursor := True\<rparr>
        in case new_pool e of
             None \<Rightarrow> (None, [Pool_create None, Free])
           | Some p \<Rightarrow>
               (case ext_screencopy_init_session_ses e (self\<lparr>pool := Some p\<rparr>) of
                  (self1, rc, c) \<Rightarrow>
                    if rc < 0
                    then (None, Pool_create (Some p) # c @ [Pool_destroy p, Free])
                    else (Some self1, Pool_create (Some p) # c)))"

datatype event_ses =
    Start_ses bool
  | Stop_ses
  | Format_shm_ses u32
  | Format_drm_ses u32
  | Dimensions_ses u32 u32
  | Constraints_done_ses
  | Damage_ses u32 u32 u32 u32
  | Presentation_time_ses
  | Transform_ses u32
  | Ready_ses
  | Failed_ses session_failure_reason
  | Cursor_enter_ses
  | Cursor_leave_ses
  | Cursor_position_ses int int
  | Cursor_hotspot_ses int int

fun step_ses :: "env \<Rightarrow> event_ses \<Rightarrow> ext_screencopy \<Rightarrow> ext_screencopy outcome" where
  "step_ses e (Start_ses immediate) self =
     (case ext_screencopy_start_ses e self immediate of
        Inl a \<Rightarrow> Inl a
      | Inr (self1, status, c) \<Rightarrow> Inr (self1, c))"
| "step_ses e Stop_ses self = Inr (ext_screencopy_stop self, [])"
| "step_ses e (Format_shm_ses format) self = Inr (session_handle_format_shm self format, [])"
| "step_ses e (Format_drm_ses format) self = Inr (session_handle_format_drm e self format, [])"
| "step_ses e (Dimensions_ses w h) self = Inr (session_handle_dimensions self w h, [])"
| "step_ses e Constraints_done_ses self = Inr (session_handle_constraints_done_ses e self)"
| "step_ses e (Damage_ses x y w h) self = Inr (session_handle_damage self x y w h)"
| "step_ses e Presentation_time_ses self = Inr (self, [])"
| "step_ses e (Transform_ses t) self = session_handle_transform self t"
| "step_ses e Ready_ses self = session_handle_ready self"
| "step_ses e (Failed_ses reason) self = session_handle_failed e self reason"
| "step_ses e Cursor_enter_ses self = Inr (self, cursor_handle_enter self)"
| "step_ses e Cursor_leave_ses self = Inr (self, cursor_handle_leave self)"
| "step_ses e (Cursor_position_ses x y) self = Inr (self, cursor_handle_position self x y)"
| "step_ses e (Cursor_hotspot_ses x y) self = Inr (self, cursor_handle_hotspot self x y)"

fun run_ses :: "(env \<times> event_ses) list \<Rightarrow> ext_screencopy \<Rightarrow> ext_screencopy outcome" where
  "run_ses [] self = Inr (self, [])"
| "run_ses ((e, ev) # rest) self =
     (case step_ses e ev self of
        Inl a \<Rightarrow> Inl a
      | Inr (self1, c1) \<Rightarrow>
          (case run_ses rest self1 of
             Inl a \<Rightarrow> Inl a
           | Inr (self2, c2) \<Rightarrow> Inr (self2, c1 @ c2)))"

section \<open>The dispatcher\<close>

text \<open>
  The three manager globals, each present (bound) or null, and the function table of a backend.
  The table of the third backend, \<^verbatim>\<open>wlr_screencopy_impl\<close>, is declared \<^verbatim>\<open>extern\<close> and its code is
  not part of the sources, so the dispatcher takes both tables as arguments. Where the C code
  reads the table through \<^verbatim>\<open>self->impl\<close>, the table is passed next to the handle.
\<close>

record globals =
  screencopy_manager :: bool
  ext_image_source_manager :: bool
  ext_screencopy_manager :: bool

record 'h screencopy_impl =
  create :: "env \<Rightarrow> nat \<Rightarrow> bool \<Rightarrow> 'h option \<times> call list"
  create_cursor :: "(env \<Rightarrow> nat \<Rightarrow> 'h option \<times> call list) option"
  destroy :: "'h \<Rightarrow> call list"
  start :: "env \<Rightarrow> 'h \<Rightarrow> bool \<Rightarrow> abort + ('h \<times> int \<times> call list)"
  stop :: "'h \<Rightarrow> 'h"

definition ext_screencopy_impl_frm :: "ext_screencopy_f screencopy_impl" where
  "ext_screencopy_impl_frm =
     \<lparr>create = ext_screencopy_create_frm,
      create_cursor = Some ext_screencopy_create_cursor_frm,
      destroy = ext_screencopy_destroy_frm,
      start = ext_screencopy_start_frm,
      stop = ext_screencopy_stop\<rparr>"

definition ext_screencopy_impl_ses :: "ext_screencopy screencopy_impl" where
  "ext_screencopy_impl_ses =
     \<lparr>create = ext_screencopy_create_ses,
      create_cursor = Some ext_screencopy_create_cursor_ses,
      destroy = ext_screencopy_destroy_ses,
      start = ext_screencopy_start_ses,
      stop = ext_screencopy_stop\<rparr>"

definition screencopy_create ::
  "globals \<Rightarrow> 'h screencopy_impl \<Rightarrow> 'h screencopy_impl \<Rightarrow> env \<Rightarrow> nat \<Rightarrow> bool
     \<Rightarrow> 'h option \<times> call list" where
  "screencopy_create g ext_screencopy_impl wlr_screencopy_impl e output render_cursor =
     (if ext_screencopy_manager g \<and> ext_image_source_manager g
      then create ext_screencopy_impl e output render_cursor
      else if screencopy_manager g
      then create wlr_screencopy_impl e output render_cursor
      else (None, []))"

definition screencopy_create_cursor ::
  "'h screencopy_impl \<Rightarrow> env \<Rightarrow> nat \<Rightarrow> 'h option \<times> call list" where
  "screencopy_create_cursor impl_table e output =
     (case create_cursor impl_table of
        Some f \<Rightarrow> f e output
      | None \<Rightarrow> (None, []))"

definition screencopy_destroy :: "'h screencopy_impl \<Rightarrow> 'h option \<Rightarrow> call list" where
  "screencopy_destroy impl_table self =
     (case self of Some s \<Rightarrow> destroy impl_table s | None \<Rightarrow> [])"

definition screencopy_start ::
  "'h screencopy_impl \<Rightarrow> env \<Rightarrow> 'h \<Rightarrow> bool \<Rightarrow> abort + ('h \<times> int \<times> call list)" where
  "screencopy_start impl_table e self immediate = start impl_table e self immediate"

definition screencopy_stop :: "'h screencopy_impl \<Rightarrow> 'h \<Rightarrow> 'h" where
  "screencopy_stop impl_table self = stop impl_table self"

section \<open>Bookkeeping over recorded calls\<close>

text \<open>
  The ledger follows one buffer reference through a list of calls. Its state is the address of
  the buffer the session holds, if any. An acquire is only in order while nothing is held
  (otherwise the earlier buffer would be lost), a release or a delivery to the completion
  callback only for the buffer that is held, and a delivery only with result done. \<open>None\<close> is a
  violation: a buffer leaked, released twice, released and delivered, or delivered as failed.
\<close>

fun ledger_step :: "call \<Rightarrow> nat option \<Rightarrow> nat option option" where
  "ledger_step (Pool_acquire b) h = (if h = None then Some (Some b) else None)"
| "ledger_step (Pool_release b) h = (if h = Some b then Some None else None)"
| "ledger_step (On_done r (Some b)) h =
     (if h = Some (addr b) \<and> r = SCREENCOPY_DONE then Some None else None)"
| "ledger_step c h = Some h"

fun ledger :: "call list \<Rightarrow> nat option \<Rightarrow> nat option option" where
  "ledger [] h = Some h"
| "ledger (c # cs) h = (case ledger_step c h of None \<Rightarrow> None | Some h' \<Rightarrow> ledger cs h')"

text \<open>What happened to buffers in a list of calls, in order.\<close>

datatype disposal = Delivered nat | Released nat

fun disposals :: "call list \<Rightarrow> disposal list" where
  "disposals [] = []"
| "disposals (Pool_release b # cs) = Released b # disposals cs"
| "disposals (On_done r (Some b) # cs) = Delivered (addr b) # disposals cs"
| "disposals (c # cs) = disposals cs"

fun acquisitions :: "call list \<Rightarrow> nat list" where
  "acquisitions [] = []"
| "acquisitions (Pool_acquire b # cs) = b # acquisitions cs"
| "acquisitions (c # cs) = acquisitions cs"

text \<open>\<open>before x y cs\<close>: \<open>x\<close> occurs in \<open>cs\<close> and \<open>y\<close> occurs after the first \<open>x\<close>.\<close>

definition before :: "call \<Rightarrow> call \<Rightarrow> call list \<Rightarrow> bool" where
  "before x y cs = (y \<in> set (dropWhile (\<lambda>c. c \<noteq> x) cs) \<and> x \<noteq> y)"

text \<open>The requests that submit a capture to the compositor.\<close>

fun is_commit :: "call \<Rightarrow> bool" where
  "is_commit (Frame_capture f) = True"
| "is_commit (Session_commit s fl) = True"
| "is_commit c = False"

text \<open>The address of the buffer in flight, if any.\<close>

definition slot :: "'a ext_screencopy_scheme \<Rightarrow> nat option" where
  "slot self = map_option addr (buffer self)"

text \<open>
  The region the spec speaks of at a completed capture, "the full output/cursor region": the
  one rectangle that covers the negotiated width and height. It follows the spec's words, to be
  compared with the region the ready handlers pass on.
\<close>

definition full_region :: "'a ext_screencopy_scheme \<Rightarrow> rect list" where
  "full_region self = [(0, 0, width self, height self)]"

text \<open>
  What holds of the frame dialect's object between any two operations: a frame is open exactly
  when a buffer is in flight, a capture is only ever in flight once the buffer info is known,
  and a deferred start is only pending while it is not.
\<close>

definition inv_frm :: "ext_screencopy_f \<Rightarrow> bool" where
  "inv_frm self =
     (((frame self = None) = (buffer self = None))
      \<and> (if frame self = None then True else have_buffer_info self)
      \<and> (if should_start self then \<not> have_buffer_info self else True))"

text \<open>
  The events that can reach a session before its negotiation is complete and that do not need a
  capture in flight; and the immediate flag of the last start among a list of events.
\<close>

fun pre_negotiation :: "event_frm \<Rightarrow> bool" where
  "pre_negotiation (Start_frm i) = True"
| "pre_negotiation Stop_frm = True"
| "pre_negotiation (Format_shm_frm f) = True"
| "pre_negotiation (Format_drm_frm f) = True"
| "pre_negotiation Dmabuf_device_frm = True"
| "pre_negotiation (Dimensions_frm w h) = True"
| "pre_negotiation Stopped_frm = True"
| "pre_negotiation Presentation_time_frm = True"
| "pre_negotiation ev = False"

fun last_start :: "event_frm list \<Rightarrow> bool option" where
  "last_start [] = None"
| "last_start (Start_frm i # evs) =
     (case last_start evs of None \<Rightarrow> Some i | Some j \<Rightarrow> Some j)"
| "last_start (ev # evs) = last_start evs"

fun pre_negotiation_ses :: "event_ses \<Rightarrow> bool" where
  "pre_negotiation_ses (Start_ses i) = True"
| "pre_negotiation_ses Stop_ses = True"
| "pre_negotiation_ses (Format_shm_ses f) = True"
| "pre_negotiation_ses (Format_drm_ses f) = True"
| "pre_negotiation_ses (Dimensions_ses w h) = True"
| "pre_negotiation_ses Presentation_time_ses = True"
| "pre_negotiation_ses ev = False"

fun last_start_ses :: "event_ses list \<Rightarrow> bool option" where
  "last_start_ses [] = None"
| "last_start_ses (Start_ses i # evs) =
     (case last_start_ses evs of None \<Rightarrow> Some i | Some j \<Rightarrow> Some j)"
| "last_start_ses (ev # evs) = last_start_ses evs"

fun is_start :: "event_frm \<Rightarrow> bool" where
  "is_start (Start_frm i) = True"
| "is_start ev = False"

section \<open>Example inputs\<close>

definition buf_A :: wv_buffer where
  "buf_A = \<lparr>addr = 100, wl_buffer = 200, nvnc_fb = 300, domain = WV_BUFFER_DOMAIN_OUTPUT,
            buffer_damage = [\<lparr>x1 = 0, y1 = 0, x2 = 16, y2 = 8\<rparr>], frame_damage = []\<rparr>"

definition buf_B :: wv_buffer where
  "buf_B = \<lparr>addr = 101, wl_buffer = 201, nvnc_fb = 301, domain = WV_BUFFER_DOMAIN_OUTPUT,
            buffer_damage = [], frame_damage = []\<rparr>"

definition env_ok :: env where
  "env_ok = \<lparr>calloc_ok = True, new_pool = Some 1, new_source = Some 2, new_session = Some 3,
             new_cursor = Some 4, new_frame = Some 5, acquired = buf_A,
             ENABLE_SCREENCOPY_DMABUF = False\<rparr>"

definition env_next :: env where
  "env_next = \<lparr>calloc_ok = True, new_pool = Some 1, new_source = Some 9, new_session = Some 8,
               new_cursor = Some 4, new_frame = Some 6, acquired = buf_B,
               ENABLE_SCREENCOPY_DMABUF = False\<rparr>"

text \<open>The handle \<^verbatim>\<open>create(output 7, render_cursor = false)\<close> returns under \<open>env_ok\<close>.\<close>

definition created_frm :: ext_screencopy_f where
  "created_frm =
     calloc_frm\<lparr>parent := \<lparr>impl = Some EXT_SCREENCOPY_IMPL, rate_limit = 30,
                            enable_linux_dmabuf = False, cursor_enter = False,
                            cursor_leave = False, cursor_hotspot = False\<rparr>,
                wl_output := 7, session := Some 3, pool := Some 1\<rparr>"

definition created_ses :: ext_screencopy where
  "created_ses =
     calloc_ses\<lparr>parent := \<lparr>impl = Some EXT_SCREENCOPY_IMPL, rate_limit = 30,
                            enable_linux_dmabuf = False, cursor_enter = False,
                            cursor_leave = False, cursor_hotspot = False\<rparr>,
                wl_output := 7, session := Some 3, pool := Some 1\<rparr>"

text \<open>The two handles with buffer \<open>buf_A\<close> in flight, as \<open>negotiate_frm\<close> and \<open>negotiate_ses\<close> leave them.\<close>

definition capturing_frm :: ext_screencopy_f where
  "capturing_frm =
     created_frm\<lparr>buffer := Some buf_A, have_buffer_info := True, width := 1920,
                 height := 1080, wl_shm_stride := 7680, wl_shm_format := 1,
                 have_wl_shm := True, frame := Some 5\<rparr>"

definition capturing_ses :: ext_screencopy where
  "capturing_ses =
     created_ses\<lparr>buffer := Some buf_A, have_buffer_info := True, width := 1920,
                 height := 1080, wl_shm_stride := 7680, wl_shm_format := 1,
                 have_wl_shm := True\<rparr>"

text \<open>A deferred start, the negotiation, and the capture it triggers.\<close>

definition negotiate_frm :: "(env \<times> event_frm) list" where
  "negotiate_frm =
     [(env_ok, Start_frm True), (env_ok, Format_shm_frm 1),
      (env_ok, Dimensions_frm 1920 1080), (env_ok, Constraints_done_frm)]"

definition negotiate_ses :: "(env \<times> event_ses) list" where
  "negotiate_ses =
     [(env_ok, Start_ses True), (env_ok, Format_shm_ses 1),
      (env_ok, Dimensions_ses 1920 1080), (env_ok, Constraints_done_ses)]"

section \<open>Properties\<close>

lemmas example_defs = buf_A_def buf_B_def env_ok_def env_next_def created_frm_def created_ses_def
  capturing_frm_def capturing_ses_def
  negotiate_frm_def negotiate_ses_def calloc_frm_def calloc_ses_def calloc_screencopy_def

lemmas shared_defs = session_handle_format_shm_def session_handle_format_drm_def
  wv_buffer_damage_rect_def
  session_handle_dimensions_def constraints_resize_def capture_domain_def
  ext_screencopy_stop_def box_x_def box_y_def box_width_def box_height_def
  cursor_handle_enter_def cursor_handle_leave_def cursor_handle_position_def
  cursor_handle_hotspot_def

lemmas frm_defs = ext_screencopy_create_frm_def ext_screencopy_init_session_frm_def
  ext_screencopy_schedule_capture_frm_def session_handle_constraints_done_frm_def
  frame_handle_ready_def frame_handle_failed_def frame_handle_transform_def
  frame_handle_damage_def ext_screencopy_start_frm_def ext_screencopy_destroy_frm_def

lemmas ses_defs = ext_screencopy_create_ses_def ext_screencopy_init_session_ses_def
  ext_screencopy_schedule_capture_ses_def session_handle_constraints_done_ses_def
  session_handle_ready_def session_handle_failed_def session_handle_transform_def
  session_handle_damage_def ext_screencopy_start_ses_def ext_screencopy_destroy_ses_def

subsection \<open>Lists of calls\<close>

lemma ledger_append:
  "ledger (xs @ ys) h = (case ledger xs h of None \<Rightarrow> None | Some h' \<Rightarrow> ledger ys h')"
  by (induction xs arbitrary: h) (auto split: option.splits)

lemma disposals_append: "disposals (xs @ ys) = disposals xs @ disposals ys"
  by (induction xs rule: disposals.induct) auto

lemma acquisitions_append: "acquisitions (xs @ ys) = acquisitions xs @ acquisitions ys"
  by (induction xs rule: acquisitions.induct) auto

lemma frame_damage_hints:
  "ledger (map (\<lambda>r. Frame_damage_buffer f (fx r) (fy r) (fw r) (fh r)) rs) h = Some h"
  "disposals (map (\<lambda>r. Frame_damage_buffer f (fx r) (fy r) (fw r) (fh r)) rs) = []"
  "acquisitions (map (\<lambda>r. Frame_damage_buffer f (fx r) (fy r) (fw r) (fh r)) rs) = []"
  "filter is_commit (map (\<lambda>r. Frame_damage_buffer f (fx r) (fy r) (fw r) (fh r)) rs) = []"
  by (induction rs) auto

subsection \<open>The frame dialect keeps its books\<close>

lemma init_session_frm_keeps:
  assumes "ext_screencopy_init_session_frm e self = (self1, rc, c)"
  shows "ledger c h = Some h" and "disposals c = []" and "acquisitions c = []"
    and "filter is_commit c = []"
    and "buffer self1 = buffer self" and "frame self1 = None"
    and "have_buffer_info self1 = have_buffer_info self"
    and "should_start self1 = should_start self"
    and "shall_be_immediate self1 = shall_be_immediate self"
    and "parent self1 = parent self"
    and "session self1 = (case new_source e of None \<Rightarrow> None | Some x \<Rightarrow> new_session e)"
  using assms
  by (auto simp: ext_screencopy_init_session_frm_def Let_def ledger_append
           split: option.splits)

lemma schedule_capture_frm_books:
  assumes "ext_screencopy_schedule_capture_frm e self immediate = Inr (self1, c)"
  shows "frame self = None" and "frame self1 = new_frame e" and "new_frame e \<noteq> None"
    and "buffer self1 = Some ((acquired e)\<lparr>domain := capture_domain self\<rparr>)"
    and "ledger c None = Some (slot self1)"
    and "acquisitions c = [addr (acquired e)]" and "disposals c = []"
    and "have_buffer_info self1 = have_buffer_info self"
    and "should_start self1 = should_start self"
    and "shall_be_immediate self1 = shall_be_immediate self"
    and "parent self1 = parent self"
  using assms
  by (auto simp: ext_screencopy_schedule_capture_frm_def Let_def ledger_append
                 acquisitions_append disposals_append frame_damage_hints slot_def
           split: option.splits if_splits)

lemma step_frm_books:
  assumes "inv_frm self" and "step_frm e ev self = Inr (self1, c)"
  shows "inv_frm self1 \<and> ledger c (slot self) = Some (slot self1)
         \<and> parent self1 = parent self"
proof (cases ev)
  case (Start_frm immediate)
  show ?thesis
  proof (cases "have_buffer_info self")
    case False
    with assms Start_frm show ?thesis
      by (auto simp: ext_screencopy_start_frm_def inv_frm_def slot_def split: if_splits)
  next
    case True
    with assms Start_frm have
      sc: "ext_screencopy_schedule_capture_frm e self immediate = Inr (self1, c)"
      by (auto simp: ext_screencopy_start_frm_def split: sum.splits)
    from schedule_capture_frm_books [OF sc] assms(1) True show ?thesis
      by (auto simp: inv_frm_def slot_def split: if_splits)
  qed
next
  case Constraints_done_frm
  show ?thesis
  proof (cases "should_start self")
    case False
    with assms Constraints_done_frm show ?thesis
      by (auto simp: session_handle_constraints_done_frm_def inv_frm_def slot_def
                     constraints_resize_def split: if_splits)
  next
    case True
    with assms Constraints_done_frm obtain s' c' where
      sc: "ext_screencopy_schedule_capture_frm e self (shall_be_immediate self) = Inr (s', c')"
      and s1: "self1 = s'\<lparr>should_start := False, shall_be_immediate := False,
                        have_buffer_info := True\<rparr>"
      and c: "c = constraints_resize e self # c' @ [Nvnc_log ''Init done'']"
      by (auto simp: session_handle_constraints_done_frm_def split: sum.splits)
    from schedule_capture_frm_books [OF sc] assms(1) s1 c show ?thesis
      by (auto simp: inv_frm_def slot_def ledger_append constraints_resize_def)
  qed
next
  case (Ready_frm fr)
  with assms show ?thesis
    by (auto simp: frame_handle_ready_def inv_frm_def slot_def
             split: if_splits option.splits)
next
  case (Failed_frm fr reason)
  show ?thesis
  proof (cases "reason = FRAME_FAILURE_REASON_BUFFER_CONSTRAINTS")
    case False
    with assms Failed_frm show ?thesis
      by (auto simp: frame_handle_failed_def inv_frm_def slot_def Let_def
               split: if_splits option.splits)
  next
    case True
    with assms Failed_frm obtain b rc c2 where
      b: "buffer self = Some b" and
      i: "ext_screencopy_init_session_frm e (self\<lparr>buffer := None, frame := None\<rparr>)
            = (self1, rc, c2)" and
      c: "c = [Frame_destroy fr, Nvnc_log ''Failed!'', Pool_release (addr b)] @ c2
               @ [On_done SCREENCOPY_FAILED None]"
      by (auto simp: frame_handle_failed_def Let_def split: if_splits option.splits prod.splits)
    from init_session_frm_keeps [OF i] b c assms(1) show ?thesis
      by (auto simp: inv_frm_def slot_def ledger_append split: if_splits)
  qed
qed (use assms in \<open>auto simp: inv_frm_def slot_def ext_screencopy_stop_def
       session_handle_format_shm_def session_handle_format_drm_def
       session_handle_dimensions_def frame_handle_transform_def frame_handle_damage_def
       wv_buffer_damage_rect_def
       split: option.splits if_splits\<close>)

lemma run_frm_books:
  "inv_frm self \<Longrightarrow> run_frm evs self = Inr (self1, c) \<Longrightarrow>
     inv_frm self1 \<and> ledger c (slot self) = Some (slot self1) \<and> parent self1 = parent self"
proof (induction evs arbitrary: self c)
  case Nil
  then show ?case by simp
next
  case (Cons a evs)
  obtain e ev where a: "a = (e, ev)" by (cases a)
  from Cons.prems(2) a obtain s' c1 c2 where
    st: "step_frm e ev self = Inr (s', c1)" and
    rn: "run_frm evs s' = Inr (self1, c2)" and c: "c = c1 @ c2"
    by (auto split: sum.splits)
  from step_frm_books [OF Cons.prems(1) st] Cons.IH [OF _ rn] c show ?case
    by (simp add: ledger_append)
qed

lemma create_frm_books:
  assumes "ext_screencopy_create_frm e output render_cursor = (Some self0, c0)"
  shows "inv_frm self0" and "buffer self0 = None" and "ledger c0 None = Some None"
    and "impl (parent self0) = Some EXT_SCREENCOPY_IMPL"
    and "render_cursors self0 = render_cursor" and "wl_output self0 = output"
    and "session self0 = new_session e" and "new_session e \<noteq> None"
    and "calloc_ok e" and "new_pool e \<noteq> None" and "new_source e \<noteq> None"
  using assms
  by (auto simp: ext_screencopy_create_frm_def ext_screencopy_init_session_frm_def Let_def
                 calloc_frm_def calloc_screencopy_def inv_frm_def
           split: if_splits option.splits)

lemma create_cursor_frm_books:
  assumes "ext_screencopy_create_cursor_frm e output = (Some self0, c0)"
  shows "inv_frm self0" and "buffer self0 = None" and "ledger c0 None = Some None"
    and "impl (parent self0) = Some EXT_SCREENCOPY_IMPL"
  using assms
  by (auto simp: ext_screencopy_create_cursor_frm_def ext_screencopy_init_session_frm_def
                 Let_def calloc_frm_def calloc_screencopy_def inv_frm_def
           split: if_splits option.splits)

lemma created_frm_books:
  assumes "ext_screencopy_create_frm e output render_cursor = (Some self0, c0)
           \<or> ext_screencopy_create_cursor_frm e output = (Some self0, c0)"
  shows "inv_frm self0" and "buffer self0 = None" and "ledger c0 None = Some None"
proof -
  from assms have "inv_frm self0 \<and> buffer self0 = None \<and> ledger c0 None = Some None"
  proof
    assume "ext_screencopy_create_frm e output render_cursor = (Some self0, c0)"
    from create_frm_books(1-3) [OF this] show ?thesis by simp
  next
    assume "ext_screencopy_create_cursor_frm e output = (Some self0, c0)"
    from create_cursor_frm_books(1-3) [OF this] show ?thesis by simp
  qed
  then show "inv_frm self0" and "buffer self0 = None" and "ledger c0 None = Some None"
    by simp_all
qed

lemma ready_frm_disposes:
  assumes "buffer self = Some b" and "frame self = Some fr"
  shows "\<exists>s1 c1. frame_handle_ready self fr = Inr (s1, c1) \<and> buffer s1 = None
           \<and> disposals c1 = [Delivered (addr b)] \<and> acquisitions c1 = []
           \<and> On_done SCREENCOPY_DONE (Some (b\<lparr>buffer_damage := []\<rparr>)) \<in> set c1"
  using assms by (simp add: frame_handle_ready_def)

lemma failed_frm_disposes:
  assumes "buffer self = Some b" and "frame self = Some fr"
  shows "\<exists>s1 c1. frame_handle_failed e self fr reason = Inr (s1, c1) \<and> buffer s1 = None
           \<and> disposals c1 = [Released (addr b)] \<and> acquisitions c1 = []
           \<and> On_done SCREENCOPY_FAILED None \<in> set c1"
proof (cases "ext_screencopy_init_session_frm e (self\<lparr>buffer := None, frame := None\<rparr>)")
  case (fields s2 rc c2)
  from init_session_frm_keeps [OF fields] assms show ?thesis
    by (simp add: frame_handle_failed_def Let_def fields disposals_append
                  acquisitions_append)
qed

text \<open>
  C1. In the frame dialect, over every history of interface calls and protocol events that
  starts at a handle from either constructor, the buffer of each capture attempt is disposed
  of exactly once: the ledger of all calls never reports a violation and ends with exactly the
  buffer that is still in flight; destroying the handle then empties it. While a buffer is in flight a frame is
  open, and there a ready event delivers the buffer to the completion callback with result done
  and releases nothing, a failed event (for any reason) releases it and calls back with failed
  and no buffer, and destroy releases it.
\<close>

theorem buffer_disposed_exactly_once:
  assumes "ext_screencopy_create_frm e0 output render_cursor = (Some self0, c0)
           \<or> ext_screencopy_create_cursor_frm e0 output = (Some self0, c0)"
    and "run_frm evs self0 = Inr (self, c)"
  shows "ledger (c0 @ c) None = Some (slot self)
       \<and> ledger (c0 @ c @ ext_screencopy_destroy_frm self) None = Some None
       \<and> (\<forall>b. buffer self = Some b \<longrightarrow>
            (\<exists>fr. frame self = Some fr
               \<and> (\<exists>s1 c1. frame_handle_ready self fr = Inr (s1, c1) \<and> buffer s1 = None
                      \<and> disposals c1 = [Delivered (addr b)]
                      \<and> On_done SCREENCOPY_DONE (Some (b\<lparr>buffer_damage := []\<rparr>)) \<in> set c1)
               \<and> (\<forall>e reason. \<exists>s1 c1.
                      frame_handle_failed e self fr reason = Inr (s1, c1) \<and> buffer s1 = None
                      \<and> disposals c1 = [Released (addr b)]
                      \<and> On_done SCREENCOPY_FAILED None \<in> set c1))
            \<and> disposals (ext_screencopy_destroy_frm self) = [Released (addr b)])
       \<and> (buffer self = None \<longrightarrow> disposals (ext_screencopy_destroy_frm self) = [])"
proof -
  note cr = created_frm_books [OF assms(1)]
  from run_frm_books [OF cr(1) assms(2)] cr(2)
  have inv: "inv_frm self" and led: "ledger c None = Some (slot self)"
    by (simp_all add: slot_def)
  have l1: "ledger (c0 @ c) None = Some (slot self)"
    using cr(3) led by (simp add: ledger_append)
  have ld: "ledger (ext_screencopy_destroy_frm self) (slot self) = Some None"
    by (simp add: ext_screencopy_destroy_frm_def slot_def ledger_append
             split: option.splits)
  have l2: "ledger (c0 @ c @ ext_screencopy_destroy_frm self) None = Some None"
    using cr(3) led ld by (simp add: ledger_append)
  have dd: "disposals (ext_screencopy_destroy_frm self)
              = (case buffer self of None \<Rightarrow> [] | Some b \<Rightarrow> [Released (addr b)])"
    by (simp add: ext_screencopy_destroy_frm_def disposals_append split: option.splits)
  have l3: "\<exists>fr. frame self = Some fr
               \<and> (\<exists>s1 c1. frame_handle_ready self fr = Inr (s1, c1) \<and> buffer s1 = None
                      \<and> disposals c1 = [Delivered (addr b)]
                      \<and> On_done SCREENCOPY_DONE (Some (b\<lparr>buffer_damage := []\<rparr>)) \<in> set c1)
               \<and> (\<forall>e reason. \<exists>s1 c1.
                      frame_handle_failed e self fr reason = Inr (s1, c1) \<and> buffer s1 = None
                      \<and> disposals c1 = [Released (addr b)]
                      \<and> On_done SCREENCOPY_FAILED None \<in> set c1)"
    if b: "buffer self = Some b" for b
  proof -
    from inv b obtain fr where fr: "frame self = Some fr"
      by (auto simp: inv_frm_def)
    from ready_frm_disposes [OF b fr] failed_frm_disposes [OF b fr] fr show ?thesis
      by blast
  qed
  from l1 l2 l3 dd show ?thesis by simp
qed

theorem buffer_disposed_exactly_once_witness:
  "ext_screencopy_create_frm env_ok 7 False =
     (Some created_frm,
      [Pool_create (Some 1), Create_source 7 (Some 2), Create_session 2 [] (Some 3),
       Source_destroy 2, Session_add_listener 3])
   \<and> (\<exists>self c. run_frm (negotiate_frm
          @ [(env_next, Failed_frm 5 FRAME_FAILURE_REASON_BUFFER_CONSTRAINTS),
             (env_next, Start_frm False), (env_next, Ready_frm 6),
             (env_ok, Start_frm False)]) created_frm = Inr (self, c)
        \<and> slot self = Some 100
        \<and> ledger ([Pool_create (Some 1), Create_source 7 (Some 2),
                   Create_session 2 [] (Some 3), Source_destroy 2, Session_add_listener 3]
                  @ c @ ext_screencopy_destroy_frm self) None = Some None)"
proof -
  have h1: "ext_screencopy_create_frm env_ok 7 False =
     (Some created_frm,
      [Pool_create (Some 1), Create_source 7 (Some 2), Create_session 2 [] (Some 3),
       Source_destroy 2, Session_add_listener 3])"
    by (simp add: example_defs frm_defs Let_def)
  obtain self c where h2: "run_frm (negotiate_frm
          @ [(env_next, Failed_frm 5 FRAME_FAILURE_REASON_BUFFER_CONSTRAINTS),
             (env_next, Start_frm False), (env_next, Ready_frm 6),
             (env_ok, Start_frm False)]) created_frm = Inr (self, c)"
    and h3: "slot self = Some 100"
    by (simp add: example_defs frm_defs shared_defs slot_def Let_def)
  from buffer_disposed_exactly_once [OF disjI1 [OF h1] h2] h1 h2 h3 show ?thesis
    by blast
qed

subsection \<open>At most one capture outstanding\<close>

lemma frame_dialect_rejects_second_start:
  assumes "ext_screencopy_create_frm e0 output render_cursor = (Some self0, c0)
           \<or> ext_screencopy_create_cursor_frm e0 output = (Some self0, c0)"
    and "run_frm evs self0 = Inr (self, c)" and "buffer self = Some b"
  shows "ext_screencopy_start_frm e self immediate = Inl Assertion_failed"
    and "ext_screencopy_schedule_capture_frm e self immediate = Inl Assertion_failed"
proof -
  from run_frm_books [OF created_frm_books(1) [OF assms(1)] assms(2)] have "inv_frm self"
    by simp
  with assms(3) have "frame self \<noteq> None" and "have_buffer_info self"
    by (auto simp: inv_frm_def split: if_splits)
  then show "ext_screencopy_start_frm e self immediate = Inl Assertion_failed"
    and "ext_screencopy_schedule_capture_frm e self immediate = Inl Assertion_failed"
    by (simp_all add: ext_screencopy_start_frm_def ext_screencopy_schedule_capture_frm_def)
qed

text \<open>
  C2. The claim holds of the frame dialect (\<open>frame_dialect_rejects_second_start\<close>) and fails
  in the session dialect, whose \<^verbatim>\<open>ext_screencopy_schedule_capture\<close> asserts nothing: after a
  deferred start and a finished negotiation, buffer 100 is in flight; a second start returns 0,
  acquires buffer 101 and overwrites the slot, and buffer 100 is neither released nor
  delivered, which the ledger reports as a violation.
\<close>

theorem session_dialect_accepts_second_start:
  "\<exists>c0 self1 c1 self2 c2.
      ext_screencopy_create_ses env_ok 7 False = (Some created_ses, c0)
    \<and> run_ses negotiate_ses created_ses = Inr (self1, c1) \<and> slot self1 = Some 100
    \<and> screencopy_start ext_screencopy_impl_ses env_next self1 False = Inr (self2, 0, c2)
    \<and> slot self2 = Some 101 \<and> acquisitions c2 = [101] \<and> disposals c2 = []
    \<and> ledger (c0 @ c1) None = Some (Some 100)
    \<and> ledger (c0 @ c1 @ c2) None = None"
  by (simp add: example_defs ses_defs shared_defs slot_def Let_def screencopy_start_def
                ext_screencopy_impl_ses_def)

subsection \<open>Deferred starts\<close>

lemma pre_negotiation_step:
  assumes "\<not> have_buffer_info self" and "pre_negotiation ev"
  shows "\<exists>s1. step_frm e ev self = Inr (s1, []) \<and> \<not> have_buffer_info s1
           \<and> frame s1 = frame self \<and> buffer s1 = buffer self
           \<and> capture_cursor s1 = capture_cursor self
           \<and> should_start s1 = (case last_start [ev] of None \<Rightarrow> should_start self
                                                       | Some i \<Rightarrow> True)
           \<and> shall_be_immediate s1 = (case last_start [ev] of
                                         None \<Rightarrow> shall_be_immediate self | Some i \<Rightarrow> i)"
  using assms
  by (cases ev)
     (simp_all add: ext_screencopy_start_frm_def ext_screencopy_stop_def
                    session_handle_format_shm_def session_handle_format_drm_def
                    session_handle_dimensions_def)

lemma pre_negotiation_run:
  assumes "\<not> have_buffer_info self" and "list_all pre_negotiation (map snd evs)"
  shows "\<exists>s1. run_frm evs self = Inr (s1, []) \<and> \<not> have_buffer_info s1
           \<and> frame s1 = frame self \<and> buffer s1 = buffer self
           \<and> capture_cursor s1 = capture_cursor self
           \<and> should_start s1 = (case last_start (map snd evs) of
                                   None \<Rightarrow> should_start self | Some i \<Rightarrow> True)
           \<and> shall_be_immediate s1 = (case last_start (map snd evs) of
                                         None \<Rightarrow> shall_be_immediate self | Some i \<Rightarrow> i)"
  using assms
proof (induction evs arbitrary: self)
  case Nil
  then show ?case by simp
next
  case (Cons a evs)
  obtain e ev where a: "a = (e, ev)" by (cases a)
  from Cons.prems a have pe: "pre_negotiation ev"
    and rest: "list_all pre_negotiation (map snd evs)"
    by simp_all
  from pre_negotiation_step [OF Cons.prems(1) pe, of e] obtain s' where
    st: "step_frm e ev self = Inr (s', [])" and nh: "\<not> have_buffer_info s'"
    and keep: "frame s' = frame self" "buffer s' = buffer self"
      "capture_cursor s' = capture_cursor self"
    and ss: "should_start s' = (case last_start [ev] of None \<Rightarrow> should_start self
                                                        | Some i \<Rightarrow> True)"
    and si: "shall_be_immediate s' = (case last_start [ev] of
                                        None \<Rightarrow> shall_be_immediate self | Some i \<Rightarrow> i)"
    by blast
  from Cons.IH [OF nh rest] obtain s1 where
    rn: "run_frm evs s' = Inr (s1, [])" and nh1: "\<not> have_buffer_info s1"
    and keep1: "frame s1 = frame s'" "buffer s1 = buffer s'"
      "capture_cursor s1 = capture_cursor s'"
    and ss1: "should_start s1 = (case last_start (map snd evs) of
                                  None \<Rightarrow> should_start s' | Some i \<Rightarrow> True)"
    and si1: "shall_be_immediate s1 = (case last_start (map snd evs) of
                                        None \<Rightarrow> shall_be_immediate s' | Some i \<Rightarrow> i)"
    by blast
  have "run_frm (a # evs) self = Inr (s1, [])"
    using a st rn by simp
  moreover have "should_start s1 = (case last_start (map snd (a # evs)) of
                                      None \<Rightarrow> should_start self | Some i \<Rightarrow> True)"
    using a ss ss1 pe by (cases ev) (simp_all split: option.splits)
  moreover have "shall_be_immediate s1 = (case last_start (map snd (a # evs)) of
                                      None \<Rightarrow> shall_be_immediate self | Some i \<Rightarrow> i)"
    using a si si1 pe by (cases ev) (simp_all split: option.splits)
  ultimately show ?case
    using nh1 keep keep1 by simp
qed

lemma constraints_done_fires:
  assumes "should_start self" and "frame self = None" and "new_frame e = Some f"
  shows "\<exists>s c. session_handle_constraints_done_frm e self = Inr (s, c)
           \<and> acquisitions c = [addr (acquired e)]
           \<and> filter is_commit c = [Frame_capture f]
           \<and> Nvnc_log_committed (shall_be_immediate self) (addr (acquired e)) \<in> set c
           \<and> \<not> should_start s \<and> \<not> shall_be_immediate s \<and> have_buffer_info s
           \<and> frame s = Some f
           \<and> buffer s = Some ((acquired e)\<lparr>domain := capture_domain self\<rparr>)"
  using assms
  by (simp add: session_handle_constraints_done_frm_def
                ext_screencopy_schedule_capture_frm_def Let_def constraints_resize_def
                acquisitions_append frame_damage_hints)

lemma no_start_step:
  assumes "have_buffer_info self" and "\<not> should_start self" and "\<not> is_start ev"
    and "step_frm e ev self = Inr (s, c)"
  shows "acquisitions c = [] \<and> filter is_commit c = []
         \<and> have_buffer_info s \<and> \<not> should_start s"
proof (cases ev)
  case (Failed_frm fr reason)
  show ?thesis
  proof (cases "ext_screencopy_init_session_frm e (self\<lparr>buffer := None, frame := None\<rparr>)")
    case (fields s2 rc c2)
    from init_session_frm_keeps [OF fields] assms Failed_frm show ?thesis
      by (auto simp: frame_handle_failed_def Let_def fields acquisitions_append
               split: if_splits option.splits)
  qed
qed (use assms in \<open>auto simp: session_handle_constraints_done_frm_def
       constraints_resize_def ext_screencopy_stop_def
       session_handle_format_shm_def session_handle_format_drm_def
       session_handle_dimensions_def frame_handle_transform_def frame_handle_damage_def
       wv_buffer_damage_rect_def
       frame_handle_ready_def
       split: option.splits if_splits\<close>)

lemma no_start_run:
  assumes "have_buffer_info self" and "\<not> should_start self"
    and "list_all (\<lambda>ev. \<not> is_start ev) (map snd evs)" and "run_frm evs self = Inr (s, c)"
  shows "acquisitions c = [] \<and> filter is_commit c = []
         \<and> have_buffer_info s \<and> \<not> should_start s"
  using assms
proof (induction evs arbitrary: self c)
  case Nil
  then show ?case by simp
next
  case (Cons a evs)
  obtain e ev where a: "a = (e, ev)" by (cases a)
  from Cons.prems(4) a obtain s' c1 c2 where
    st: "step_frm e ev self = Inr (s', c1)" and
    rn: "run_frm evs s' = Inr (s, c2)" and c: "c = c1 @ c2"
    by (auto split: sum.splits)
  from Cons.prems(3) a have ns: "\<not> is_start ev"
    and rest: "list_all (\<lambda>ev. \<not> is_start ev) (map snd evs)"
    by simp_all
  from no_start_step [OF Cons.prems(1,2) ns st]
  have one: "acquisitions c1 = []" "filter is_commit c1 = []"
    "have_buffer_info s'" "\<not> should_start s'"
    by simp_all
  from Cons.IH [OF one(3,4) rest rn] one(1,2) c show ?case
    by (simp add: acquisitions_append)
qed

text \<open>
  C3. Frame dialect. A start issued while the buffer info is unknown returns 0, makes no call
  at all (so acquires no buffer) and records the request and its immediate flag. Whatever
  format and dimension events follow, the negotiation-complete event then acquires exactly one
  buffer and submits exactly one capture, scheduled with the recorded flag, and clears both
  deferred-start flags. A further negotiation-complete event only resizes the pool, and no
  history without a start acquires or submits anything again.
\<close>

theorem deferred_start_fires_once:
  assumes "\<not> have_buffer_info self" and "frame self = None"
    and "list_all pre_negotiation (map snd evs)" and "last_start (map snd evs) = None"
    and "new_frame e = Some f"
  shows "\<exists>s1 s2 s3 c3.
      ext_screencopy_start_frm e0 self immediate = Inr (s1, 0, [])
    \<and> buffer s1 = buffer self \<and> should_start s1 \<and> shall_be_immediate s1 = immediate
    \<and> run_frm evs s1 = Inr (s2, [])
    \<and> session_handle_constraints_done_frm e s2 = Inr (s3, c3)
    \<and> acquisitions c3 = [addr (acquired e)] \<and> filter is_commit c3 = [Frame_capture f]
    \<and> Nvnc_log_committed immediate (addr (acquired e)) \<in> set c3
    \<and> \<not> should_start s3 \<and> \<not> shall_be_immediate s3 \<and> have_buffer_info s3
    \<and> (\<forall>e'. \<exists>s4. session_handle_constraints_done_frm e' s3
                     = Inr (s4, [constraints_resize e' s3, Nvnc_log ''Init done''])
                 \<and> \<not> should_start s4)
    \<and> (\<forall>evs' s5 c5. list_all (\<lambda>ev. \<not> is_start ev) (map snd evs')
            \<and> run_frm evs' s3 = Inr (s5, c5)
          \<longrightarrow> acquisitions c5 = [] \<and> filter is_commit c5 = [])"
proof -
  define s1 where "s1 = self\<lparr>should_start := True, shall_be_immediate := immediate\<rparr>"
  have st: "ext_screencopy_start_frm e0 self immediate = Inr (s1, 0, [])"
    using assms(1) by (simp add: ext_screencopy_start_frm_def s1_def)
  have s1: "\<not> have_buffer_info s1" "buffer s1 = buffer self" "should_start s1"
    "shall_be_immediate s1 = immediate" "frame s1 = None"
    using assms(1,2) by (simp_all add: s1_def)
  from pre_negotiation_run [OF s1(1) assms(3)] assms(4) s1 obtain s2 where
    rn: "run_frm evs s1 = Inr (s2, [])" and
    s2: "should_start s2" "shall_be_immediate s2 = immediate" "frame s2 = None"
    by auto
  from constraints_done_fires [OF s2(1) s2(3) assms(5)] s2(2) obtain s3 c3 where
    cd: "session_handle_constraints_done_frm e s2 = Inr (s3, c3)"
    and c3: "acquisitions c3 = [addr (acquired e)]" "filter is_commit c3 = [Frame_capture f]"
      "Nvnc_log_committed immediate (addr (acquired e)) \<in> set c3"
    and s3: "\<not> should_start s3" "\<not> shall_be_immediate s3" "have_buffer_info s3"
    by auto
  have again: "\<exists>s4. session_handle_constraints_done_frm e' s3
                     = Inr (s4, [constraints_resize e' s3, Nvnc_log ''Init done''])
                 \<and> \<not> should_start s4" for e'
    using s3(1) by (simp add: session_handle_constraints_done_frm_def)
  have later: "acquisitions c5 = [] \<and> filter is_commit c5 = []"
    if "list_all (\<lambda>ev. \<not> is_start ev) (map snd evs')" and "run_frm evs' s3 = Inr (s5, c5)"
    for evs' s5 c5
    using no_start_run [OF s3(3) s3(1) that] by simp
  from st s1 rn cd c3 s3 again later show ?thesis
    by blast
qed

theorem deferred_start_fires_once_witness:
  "\<not> have_buffer_info created_frm \<and> frame created_frm = None
   \<and> (\<exists>s1 s2 s3 c3.
      ext_screencopy_start_frm env_ok created_frm True = Inr (s1, 0, [])
    \<and> should_start s1 \<and> shall_be_immediate s1
    \<and> run_frm [(env_ok, Format_shm_frm 1), (env_ok, Dimensions_frm 1920 1080)] s1
        = Inr (s2, [])
    \<and> session_handle_constraints_done_frm env_ok s2 = Inr (s3, c3)
    \<and> acquisitions c3 = [100] \<and> filter is_commit c3 = [Frame_capture 5]
    \<and> Nvnc_log_committed True 100 \<in> set c3
    \<and> \<not> should_start s3 \<and> have_buffer_info s3)"
proof -
  have h1: "\<not> have_buffer_info created_frm" and h2: "frame created_frm = None"
    by (simp_all add: example_defs)
  have h3: "list_all pre_negotiation
              (map snd [(env_ok, Format_shm_frm 1), (env_ok, Dimensions_frm 1920 1080)])"
    and h4: "last_start
              (map snd [(env_ok, Format_shm_frm 1), (env_ok, Dimensions_frm 1920 1080)]) = None"
    by simp_all
  have h5: "new_frame env_ok = Some 5" and h6: "addr (acquired env_ok) = 100"
    by (simp_all add: example_defs)
  from deferred_start_fires_once [OF h1 h2 h3 h4 h5, of env_ok True] h1 h2 h6
  show ?thesis by (simp, blast)
qed

text \<open>
  C10. Frame dialect. However many starts are issued before the negotiation completes, and
  whatever format and dimension events come between them, nothing is acquired meanwhile, the
  recorded immediate flag is that of the last start, and the negotiation-complete event
  acquires exactly one buffer and submits exactly one capture, scheduled with that flag.
\<close>

theorem deferred_starts_coalesce:
  assumes "\<not> have_buffer_info self" and "frame self = None"
    and "list_all pre_negotiation (map snd evs)"
    and "last_start (map snd evs) = Some immediate"
    and "new_frame e = Some f"
  shows "\<exists>s1 s2 c2.
      run_frm evs self = Inr (s1, [])
    \<and> should_start s1 \<and> shall_be_immediate s1 = immediate
    \<and> session_handle_constraints_done_frm e s1 = Inr (s2, c2)
    \<and> acquisitions c2 = [addr (acquired e)] \<and> filter is_commit c2 = [Frame_capture f]
    \<and> Nvnc_log_committed immediate (addr (acquired e)) \<in> set c2
    \<and> \<not> should_start s2 \<and> \<not> shall_be_immediate s2 \<and> have_buffer_info s2"
proof -
  from pre_negotiation_run [OF assms(1) assms(3)] assms(2,4) obtain s1 where
    rn: "run_frm evs self = Inr (s1, [])" and
    s1: "should_start s1" "shall_be_immediate s1 = immediate" "frame s1 = None"
    by auto
  from constraints_done_fires [OF s1(1) s1(3) assms(5)] s1(2) rn s1 show ?thesis
    by auto
qed

theorem deferred_starts_coalesce_witness:
  "\<not> have_buffer_info created_frm \<and> frame created_frm = None
   \<and> (\<exists>s1 s2 c2.
      run_frm [(env_ok, Start_frm True), (env_ok, Format_shm_frm 1),
               (env_ok, Start_frm False), (env_ok, Dimensions_frm 1920 1080)] created_frm
        = Inr (s1, [])
    \<and> should_start s1 \<and> \<not> shall_be_immediate s1
    \<and> session_handle_constraints_done_frm env_ok s1 = Inr (s2, c2)
    \<and> acquisitions c2 = [100] \<and> filter is_commit c2 = [Frame_capture 5]
    \<and> Nvnc_log_committed False 100 \<in> set c2
    \<and> \<not> should_start s2)"
proof -
  have h1: "\<not> have_buffer_info created_frm" and h2: "frame created_frm = None"
    by (simp_all add: example_defs)
  have h3: "list_all pre_negotiation
              (map snd [(env_ok, Start_frm True), (env_ok, Format_shm_frm 1),
                        (env_ok, Start_frm False), (env_ok, Dimensions_frm 1920 1080)])"
    and h4: "last_start
              (map snd [(env_ok, Start_frm True), (env_ok, Format_shm_frm 1),
                        (env_ok, Start_frm False), (env_ok, Dimensions_frm 1920 1080)])
             = Some False"
    by simp_all
  have h5: "new_frame env_ok = Some 5" and h6: "addr (acquired env_ok) = 100"
    by (simp_all add: example_defs)
  from deferred_starts_coalesce [OF h1 h2 h3 h4 h5] h1 h2 h6
  show ?thesis by (simp, blast)
qed

subsection \<open>Deferred starts in the session dialect\<close>

text \<open>
  The session dialect defers in the same way, and there the recorded flag decides the commit:
  the capture waits for damage exactly when the last deferred start was not immediate.
\<close>

lemma pre_negotiation_step_ses:
  assumes "\<not> have_buffer_info self" and "pre_negotiation_ses ev"
  shows "\<exists>s1. step_ses e ev self = Inr (s1, []) \<and> \<not> have_buffer_info s1
           \<and> buffer s1 = buffer self \<and> session s1 = session self
           \<and> should_start s1 = (case last_start_ses [ev] of None \<Rightarrow> should_start self
                                                           | Some i \<Rightarrow> True)
           \<and> shall_be_immediate s1 = (case last_start_ses [ev] of
                                         None \<Rightarrow> shall_be_immediate self | Some i \<Rightarrow> i)"
  using assms
  by (cases ev)
     (simp_all add: ext_screencopy_start_ses_def ext_screencopy_stop_def
                    session_handle_format_shm_def session_handle_format_drm_def
                    session_handle_dimensions_def)

lemma pre_negotiation_run_ses:
  assumes "\<not> have_buffer_info self" and "list_all pre_negotiation_ses (map snd evs)"
  shows "\<exists>s1. run_ses evs self = Inr (s1, []) \<and> \<not> have_buffer_info s1
           \<and> buffer s1 = buffer self \<and> session s1 = session self
           \<and> should_start s1 = (case last_start_ses (map snd evs) of
                                   None \<Rightarrow> should_start self | Some i \<Rightarrow> True)
           \<and> shall_be_immediate s1 = (case last_start_ses (map snd evs) of
                                         None \<Rightarrow> shall_be_immediate self | Some i \<Rightarrow> i)"
  using assms
proof (induction evs arbitrary: self)
  case Nil
  then show ?case by simp
next
  case (Cons a evs)
  obtain e ev where a: "a = (e, ev)" by (cases a)
  from Cons.prems a have pe: "pre_negotiation_ses ev"
    and rest: "list_all pre_negotiation_ses (map snd evs)"
    by simp_all
  from pre_negotiation_step_ses [OF Cons.prems(1) pe, of e] obtain s' where
    st: "step_ses e ev self = Inr (s', [])" and nh: "\<not> have_buffer_info s'"
    and keep: "buffer s' = buffer self" "session s' = session self"
    and ss: "should_start s' = (case last_start_ses [ev] of None \<Rightarrow> should_start self
                                                            | Some i \<Rightarrow> True)"
    and si: "shall_be_immediate s' = (case last_start_ses [ev] of
                                        None \<Rightarrow> shall_be_immediate self | Some i \<Rightarrow> i)"
    by blast
  from Cons.IH [OF nh rest] obtain s1 where
    rn: "run_ses evs s' = Inr (s1, [])" and nh1: "\<not> have_buffer_info s1"
    and keep1: "buffer s1 = buffer s'" "session s1 = session s'"
    and ss1: "should_start s1 = (case last_start_ses (map snd evs) of
                                  None \<Rightarrow> should_start s' | Some i \<Rightarrow> True)"
    and si1: "shall_be_immediate s1 = (case last_start_ses (map snd evs) of
                                        None \<Rightarrow> shall_be_immediate s' | Some i \<Rightarrow> i)"
    by blast
  have "run_ses (a # evs) self = Inr (s1, [])"
    using a st rn by simp
  moreover have "should_start s1 = (case last_start_ses (map snd (a # evs)) of
                                      None \<Rightarrow> should_start self | Some i \<Rightarrow> True)"
    using a ss ss1 pe by (cases ev) (simp_all split: option.splits)
  moreover have "shall_be_immediate s1 = (case last_start_ses (map snd (a # evs)) of
                                      None \<Rightarrow> shall_be_immediate self | Some i \<Rightarrow> i)"
    using a si si1 pe by (cases ev) (simp_all split: option.splits)
  ultimately show ?case
    using nh1 keep keep1 by simp
qed

lemma session_damage_hints:
  "acquisitions (map (\<lambda>r. Session_damage_buffer s (fx r) (fy r) (fw r) (fh r)) rs) = []"
  "filter is_commit (map (\<lambda>r. Session_damage_buffer s (fx r) (fy r) (fw r) (fh r)) rs) = []"
  by (induction rs) auto

lemma deferred_starts_coalesce_ses:
  assumes "\<not> have_buffer_info self" and "list_all pre_negotiation_ses (map snd evs)"
    and "last_start_ses (map snd evs) = Some immediate"
  shows "\<exists>s1 s2 c2.
      run_ses evs self = Inr (s1, [])
    \<and> should_start s1 \<and> shall_be_immediate s1 = immediate
    \<and> session_handle_constraints_done_ses e s1 = (s2, c2)
    \<and> acquisitions c2 = [addr (acquired e)]
    \<and> filter is_commit c2
        = [Session_commit (session self) (if immediate then [] else [OPTIONS_ON_DAMAGE])]
    \<and> \<not> should_start s2 \<and> \<not> shall_be_immediate s2 \<and> have_buffer_info s2"
proof -
  from pre_negotiation_run_ses [OF assms(1,2)] assms(3) obtain s1 where
    rn: "run_ses evs self = Inr (s1, [])" and
    s1: "should_start s1" "shall_be_immediate s1 = immediate" "session s1 = session self"
    by auto
  have "\<exists>s2 c2. session_handle_constraints_done_ses e s1 = (s2, c2)
          \<and> acquisitions c2 = [addr (acquired e)]
          \<and> filter is_commit c2
              = [Session_commit (session self) (if immediate then [] else [OPTIONS_ON_DAMAGE])]
          \<and> \<not> should_start s2 \<and> \<not> shall_be_immediate s2 \<and> have_buffer_info s2"
    using s1
    by (simp add: session_handle_constraints_done_ses_def
                  ext_screencopy_schedule_capture_ses_def Let_def constraints_resize_def
                  acquisitions_append session_damage_hints)
  with rn s1 show ?thesis by blast
qed

subsection \<open>Failures\<close>

text \<open>
  C4. In both dialects, a failed event whose reason is the invalidating one (buffer
  constraints, respectively invalid buffer) releases the buffer, runs the whole of
  \<^verbatim>\<open>ext_screencopy_init_session\<close> and only then invokes the completion callback with failed and
  no buffer, as the last call: the old session object is destroyed, and when the compositor
  hands out a source and a session, the new session is installed with its listener. For every
  other reason, the handler makes no call between the release and the callback and changes
  nothing in the object but the in-flight state, so the session and the negotiated format stay
  as they were.
\<close>

theorem invalidating_failure_reinit_before_callback:
  "(buffer self = Some b \<and> frame self = Some fr \<longrightarrow>
      (\<exists>s1 rc ci.
          ext_screencopy_init_session_frm e (self\<lparr>buffer := None, frame := None\<rparr>)
            = (s1, rc, ci)
        \<and> frame_handle_failed e self fr FRAME_FAILURE_REASON_BUFFER_CONSTRAINTS
            = Inr (s1, [Frame_destroy fr, Nvnc_log ''Failed!'', Pool_release (addr b)]
                       @ ci @ [On_done SCREENCOPY_FAILED None])
        \<and> On_done SCREENCOPY_FAILED None \<notin> set ci
        \<and> (\<forall>old. session self = Some old \<longrightarrow> Session_destroy old \<in> set ci)
        \<and> (\<forall>src s. new_source e = Some src \<and> new_session e = Some s \<longrightarrow>
              rc = 0 \<and> session s1 = Some s
            \<and> Create_session src (if render_cursors self then [OPTIONS_PAINT_CURSORS] else [])
                (Some s) \<in> set ci
            \<and> Session_add_listener s \<in> set ci))
    \<and> (\<forall>reason. reason \<noteq> FRAME_FAILURE_REASON_BUFFER_CONSTRAINTS \<longrightarrow>
          frame_handle_failed e self fr reason
            = Inr (self\<lparr>buffer := None, frame := None\<rparr>,
                   [Frame_destroy fr, Nvnc_log ''Failed!'', Pool_release (addr b),
                    On_done SCREENCOPY_FAILED None])))
   \<and> (buffer self' = Some b' \<longrightarrow>
      (\<exists>s1 rc ci.
          ext_screencopy_init_session_ses e' (self'\<lparr>buffer := None\<rparr>) = (s1, rc, ci)
        \<and> session_handle_failed e' self' SESSION_FAILURE_REASON_INVALID_BUFFER
            = Inr (s1, [Nvnc_log ''Failed!'', Pool_release (addr b')]
                       @ ci @ [On_done SCREENCOPY_FAILED None])
        \<and> On_done SCREENCOPY_FAILED None \<notin> set ci
        \<and> (\<forall>old. session self' = Some old \<longrightarrow> Session_destroy old \<in> set ci)
        \<and> (\<forall>src s. new_source e' = Some src \<and> new_session e' = Some s
                    \<and> (if capture_cursor self' then new_cursor e' \<noteq> None else True) \<longrightarrow>
              rc = 0 \<and> session s1 = Some s \<and> Session_add_listener s \<in> set ci))
    \<and> (\<forall>reason. reason \<noteq> SESSION_FAILURE_REASON_INVALID_BUFFER \<longrightarrow>
          session_handle_failed e' self' reason
            = Inr (self'\<lparr>buffer := None\<rparr>,
                   [Nvnc_log ''Failed!'', Pool_release (addr b'),
                    On_done SCREENCOPY_FAILED None])))"
proof -
  have frm: "\<exists>s1 rc ci.
          ext_screencopy_init_session_frm e (self\<lparr>buffer := None, frame := None\<rparr>)
            = (s1, rc, ci)
        \<and> frame_handle_failed e self fr FRAME_FAILURE_REASON_BUFFER_CONSTRAINTS
            = Inr (s1, [Frame_destroy fr, Nvnc_log ''Failed!'', Pool_release (addr b)]
                       @ ci @ [On_done SCREENCOPY_FAILED None])
        \<and> On_done SCREENCOPY_FAILED None \<notin> set ci
        \<and> (\<forall>old. session self = Some old \<longrightarrow> Session_destroy old \<in> set ci)
        \<and> (\<forall>src s. new_source e = Some src \<and> new_session e = Some s \<longrightarrow>
              rc = 0 \<and> session s1 = Some s
            \<and> Create_session src (if render_cursors self then [OPTIONS_PAINT_CURSORS] else [])
                (Some s) \<in> set ci
            \<and> Session_add_listener s \<in> set ci)"
    if "buffer self = Some b" and "frame self = Some fr"
    using that
    by (cases "ext_screencopy_init_session_frm e (self\<lparr>buffer := None, frame := None\<rparr>)")
       (auto simp: frame_handle_failed_def ext_screencopy_init_session_frm_def Let_def
             split: option.splits)
  have frm_other: "frame_handle_failed e self fr reason
            = Inr (self\<lparr>buffer := None, frame := None\<rparr>,
                   [Frame_destroy fr, Nvnc_log ''Failed!'', Pool_release (addr b),
                    On_done SCREENCOPY_FAILED None])"
    if "buffer self = Some b" and "frame self = Some fr"
      and "reason \<noteq> FRAME_FAILURE_REASON_BUFFER_CONSTRAINTS" for reason
    using that by (simp add: frame_handle_failed_def)
  have ses: "\<exists>s1 rc ci.
          ext_screencopy_init_session_ses e' (self'\<lparr>buffer := None\<rparr>) = (s1, rc, ci)
        \<and> session_handle_failed e' self' SESSION_FAILURE_REASON_INVALID_BUFFER
            = Inr (s1, [Nvnc_log ''Failed!'', Pool_release (addr b')]
                       @ ci @ [On_done SCREENCOPY_FAILED None])
        \<and> On_done SCREENCOPY_FAILED None \<notin> set ci
        \<and> (\<forall>old. session self' = Some old \<longrightarrow> Session_destroy old \<in> set ci)
        \<and> (\<forall>src s. new_source e' = Some src \<and> new_session e' = Some s
                    \<and> (if capture_cursor self' then new_cursor e' \<noteq> None else True) \<longrightarrow>
              rc = 0 \<and> session s1 = Some s \<and> Session_add_listener s \<in> set ci)"
    if "buffer self' = Some b'"
    using that
    by (cases "ext_screencopy_init_session_ses e' (self'\<lparr>buffer := None\<rparr>)")
       (auto simp: session_handle_failed_def ext_screencopy_init_session_ses_def Let_def
             split: option.splits if_splits)
  have ses_other: "session_handle_failed e' self' reason
            = Inr (self'\<lparr>buffer := None\<rparr>,
                   [Nvnc_log ''Failed!'', Pool_release (addr b'),
                    On_done SCREENCOPY_FAILED None])"
    if "buffer self' = Some b'" and "reason \<noteq> SESSION_FAILURE_REASON_INVALID_BUFFER"
    for reason
    using that by (simp add: session_handle_failed_def)
  from frm frm_other ses ses_other show ?thesis
    by blast
qed


lemma negotiate_frm_capturing:
  "run_frm negotiate_frm created_frm =
     Inr (capturing_frm,
          [Pool_resize WV_BUFFER_SHM 1920 1080 7680 1, Pool_acquire 100,
           Create_frame (Some 3) (Some 5), Frame_attach_buffer 5 200, Frame_add_listener 5,
           Frame_damage_buffer 5 0 0 16 8, Frame_capture 5, Nvnc_log_committed True 100,
           Nvnc_log ''Init done''])"
  by (simp add: example_defs frm_defs shared_defs Let_def)

lemma negotiate_ses_capturing:
  "run_ses negotiate_ses created_ses =
     Inr (capturing_ses,
          [Pool_resize WV_BUFFER_SHM 1920 1080 7680 1, Pool_acquire 100,
           Session_attach_buffer (Some 3) 200, Session_damage_buffer (Some 3) 0 0 16 8,
           Session_commit (Some 3) [], Nvnc_log_committed True 100,
           Nvnc_log ''Init done''])"
  by (simp add: example_defs ses_defs shared_defs Let_def)

lemma create_frm_example:
  "ext_screencopy_create_frm env_ok 7 False =
     (Some created_frm,
      [Pool_create (Some 1), Create_source 7 (Some 2), Create_session 2 [] (Some 3),
       Source_destroy 2, Session_add_listener 3])"
  by (simp add: example_defs frm_defs Let_def)

theorem invalidating_failure_reinit_before_callback_witness:
  "buffer capturing_frm = Some buf_A \<and> frame capturing_frm = Some 5
   \<and> frame_handle_failed env_next capturing_frm 5 FRAME_FAILURE_REASON_BUFFER_CONSTRAINTS
       = Inr (capturing_frm\<lparr>session := Some 8, buffer := None, frame := None\<rparr>,
              [Frame_destroy 5, Nvnc_log ''Failed!'', Pool_release 100, Session_destroy 3,
               Create_source 7 (Some 9), Create_session 9 [] (Some 8), Source_destroy 9,
               Session_add_listener 8, On_done SCREENCOPY_FAILED None])
   \<and> frame_handle_failed env_next capturing_frm 5 (FRAME_FAILURE_REASON_OTHER 0)
       = Inr (capturing_frm\<lparr>buffer := None, frame := None\<rparr>,
              [Frame_destroy 5, Nvnc_log ''Failed!'', Pool_release 100,
               On_done SCREENCOPY_FAILED None])
   \<and> buffer capturing_ses = Some buf_A
   \<and> session_handle_failed env_next capturing_ses SESSION_FAILURE_REASON_INVALID_BUFFER
       = Inr (capturing_ses\<lparr>session := Some 8, buffer := None\<rparr>,
              [Nvnc_log ''Failed!'', Pool_release 100, Session_destroy 3,
               Create_source 7 (Some 9), Capture 9 [] (Some 8), Source_destroy 9,
               Session_add_listener 8, On_done SCREENCOPY_FAILED None])
   \<and> session_handle_failed env_next capturing_ses (SESSION_FAILURE_REASON_OTHER 0)
       = Inr (capturing_ses\<lparr>buffer := None\<rparr>,
              [Nvnc_log ''Failed!'', Pool_release 100, On_done SCREENCOPY_FAILED None])"
proof -
  have h1: "buffer capturing_frm = Some buf_A" and h2: "frame capturing_frm = Some 5"
    and h3: "buffer capturing_ses = Some buf_A"
    by (simp_all add: example_defs)
  have i1: "ext_screencopy_init_session_frm env_next
              (capturing_frm\<lparr>buffer := None, frame := None\<rparr>)
            = (capturing_frm\<lparr>session := Some 8, buffer := None, frame := None\<rparr>, 0,
               [Session_destroy 3, Create_source 7 (Some 9), Create_session 9 [] (Some 8),
                Source_destroy 9, Session_add_listener 8])"
    by (simp add: example_defs frm_defs Let_def)
  have i2: "ext_screencopy_init_session_ses env_next (capturing_ses\<lparr>buffer := None\<rparr>)
            = (capturing_ses\<lparr>session := Some 8, buffer := None\<rparr>, 0,
               [Session_destroy 3, Create_source 7 (Some 9), Capture 9 [] (Some 8),
                Source_destroy 9, Session_add_listener 8])"
    by (simp add: example_defs ses_defs Let_def)
  have a: "addr buf_A = 100" by (simp add: buf_A_def)
  from invalidating_failure_reinit_before_callback
         [of capturing_frm buf_A 5 env_next capturing_ses buf_A env_next]
    h1 h2 h3 i1 i2 a
  show ?thesis by simp
qed

text \<open>
  C5, as the claim states it, fails: after a deferred start, a negotiation and an invalidating
  failure of the capture, the session has been reopened (session 8), yet the next start does
  not defer. It acquires buffer 101 and submits a capture at once.
\<close>

theorem start_after_invalidating_failure_counterexample:
  "case run_frm (negotiate_frm
         @ [(env_next, Failed_frm 5 FRAME_FAILURE_REASON_BUFFER_CONSTRAINTS)]) created_frm of
     Inl a \<Rightarrow> False
   | Inr (self1, c1) \<Rightarrow>
       session self1 = Some 8 \<and>
       (case ext_screencopy_start_frm env_next self1 False of
          Inl a \<Rightarrow> False
        | Inr (self2, status, c2) \<Rightarrow>
            \<not> should_start self2 \<and> acquisitions c2 = [101]
            \<and> filter is_commit c2 = [Frame_capture 6])"
  by (simp add: example_defs frm_defs shared_defs Let_def)

text \<open>
  C5, amended. Whenever a capture is outstanding in the frame dialect, the buffer info is
  known, and an invalidating failure reopens the session without resetting that flag. So the
  very next start does not defer: it returns 0, acquires a buffer and submits a capture on the
  reopened session at once, before any negotiation event of the new session has been handled.
\<close>

theorem start_after_invalidating_failure_captures_at_once:
  assumes "ext_screencopy_create_frm e0 output render_cursor = (Some self0, c0)
           \<or> ext_screencopy_create_cursor_frm e0 output = (Some self0, c0)"
    and "run_frm evs self0 = Inr (self, c)" and "buffer self = Some b"
    and "new_frame e' = Some f"
  shows "\<exists>fr s1 c1 s2 c2.
      frame self = Some fr
    \<and> frame_handle_failed e self fr FRAME_FAILURE_REASON_BUFFER_CONSTRAINTS = Inr (s1, c1)
    \<and> session s1 = (case new_source e of None \<Rightarrow> None | Some x \<Rightarrow> new_session e)
    \<and> have_buffer_info s1 \<and> buffer s1 = None \<and> frame s1 = None
    \<and> ext_screencopy_start_frm e' s1 immediate = Inr (s2, 0, c2)
    \<and> \<not> should_start s2
    \<and> acquisitions c2 = [addr (acquired e')] \<and> filter is_commit c2 = [Frame_capture f]
    \<and> Create_frame (session s1) (Some f) \<in> set c2"
proof -
  from run_frm_books [OF created_frm_books(1) [OF assms(1)] assms(2)] have "inv_frm self"
    by simp
  with assms(3) obtain fr where fr: "frame self = Some fr" and hb: "have_buffer_info self"
    and ns: "\<not> should_start self"
    by (auto simp: inv_frm_def split: if_splits)
  obtain s1 rc ci where
    i: "ext_screencopy_init_session_frm e (self\<lparr>buffer := None, frame := None\<rparr>) = (s1, rc, ci)"
    by (cases "ext_screencopy_init_session_frm e (self\<lparr>buffer := None, frame := None\<rparr>)")
  note k = init_session_frm_keeps [OF i]
  have fl: "frame_handle_failed e self fr FRAME_FAILURE_REASON_BUFFER_CONSTRAINTS
              = Inr (s1, [Frame_destroy fr, Nvnc_log ''Failed!'', Pool_release (addr b)]
                         @ ci @ [On_done SCREENCOPY_FAILED None])"
    using assms(3) fr i by (simp add: frame_handle_failed_def)
  have s1: "have_buffer_info s1" "buffer s1 = None" "frame s1 = None" "\<not> should_start s1"
    "session s1 = (case new_source e of None \<Rightarrow> None | Some x \<Rightarrow> new_session e)"
    using k hb ns by simp_all
  have "\<exists>s2 c2. ext_screencopy_start_frm e' s1 immediate = Inr (s2, 0, c2)
          \<and> \<not> should_start s2
          \<and> acquisitions c2 = [addr (acquired e')] \<and> filter is_commit c2 = [Frame_capture f]
          \<and> Create_frame (session s1) (Some f) \<in> set c2"
    using s1(1,3,4) assms(4)
    by (simp add: ext_screencopy_start_frm_def ext_screencopy_schedule_capture_frm_def
                  Let_def acquisitions_append frame_damage_hints)
  with fr fl s1 show ?thesis by blast
qed

theorem start_after_invalidating_failure_captures_at_once_witness:
  "ext_screencopy_create_frm env_ok 7 False =
     (Some created_frm,
      [Pool_create (Some 1), Create_source 7 (Some 2), Create_session 2 [] (Some 3),
       Source_destroy 2, Session_add_listener 3])
   \<and> buffer capturing_frm = Some buf_A \<and> new_frame env_next = Some 6
   \<and> (\<exists>s1 c1 s2 c2.
        frame_handle_failed env_next capturing_frm 5 FRAME_FAILURE_REASON_BUFFER_CONSTRAINTS
          = Inr (s1, c1)
      \<and> session s1 = Some 8 \<and> have_buffer_info s1
      \<and> ext_screencopy_start_frm env_next s1 True = Inr (s2, 0, c2)
      \<and> \<not> should_start s2 \<and> acquisitions c2 = [101]
      \<and> filter is_commit c2 = [Frame_capture 6])"
proof -
  have h3: "buffer capturing_frm = Some buf_A" and h4: "new_frame env_next = Some 6"
    and h5: "frame capturing_frm = Some 5" and h6: "addr (acquired env_next) = 101"
    and h7: "new_source env_next = Some 9" and h8: "new_session env_next = Some 8"
    by (simp_all add: example_defs)
  from start_after_invalidating_failure_captures_at_once
         [OF disjI1 [OF create_frm_example] negotiate_frm_capturing h3 h4,
          of env_next True]
    create_frm_example h3 h4 h5 h6 h7 h8
  show ?thesis by (simp, blast)
qed

subsection \<open>Teardown\<close>

text \<open>
  C7, as the claim states it, fails in both dialects: with buffer 100 in flight after a deferred
  start and a negotiation, destroy first destroys the frame and the session and releases the
  buffer after them, so the release does not come before either.
\<close>

theorem destroy_order_counterexample:
  "(case run_frm negotiate_frm created_frm of Inl a \<Rightarrow> False
                                             | Inr (self, c) \<Rightarrow> self = capturing_frm)
   \<and> (case run_ses negotiate_ses created_ses of Inl a \<Rightarrow> False
                                               | Inr (self, c) \<Rightarrow> self = capturing_ses)
   \<and> ext_screencopy_destroy_frm capturing_frm
     = [Frame_destroy 5, Session_destroy 3, Pool_release 100, Free]
   \<and> \<not> before (Pool_release 100) (Frame_destroy 5) (ext_screencopy_destroy_frm capturing_frm)
   \<and> \<not> before (Pool_release 100) (Session_destroy 3)
         (ext_screencopy_destroy_frm capturing_frm)
   \<and> ext_screencopy_destroy_ses capturing_ses = [Session_destroy 3, Pool_release 100, Free]
   \<and> \<not> before (Pool_release 100) (Session_destroy 3)
         (ext_screencopy_destroy_ses capturing_ses)"
  by (simp add: negotiate_frm_capturing negotiate_ses_capturing)
     (simp add: example_defs ext_screencopy_destroy_frm_def ext_screencopy_destroy_ses_def
                before_def)

text \<open>
  C7, amended. Destroy called while a capture is outstanding releases the in-flight buffer back
  to the pool exactly once, after the protocol objects (the frame, where there is one, and the
  session) have been destroyed and before the handle is freed.
\<close>

theorem destroy_releases_buffer_after_protocol_objects:
  "(buffer self = Some b \<longrightarrow>
      ext_screencopy_destroy_frm self
        = (case frame self of Some f \<Rightarrow> [Frame_destroy f] | None \<Rightarrow> [])
          @ (case session self of Some s \<Rightarrow> [Session_destroy s] | None \<Rightarrow> [])
          @ [Pool_release (addr b), Free]
    \<and> disposals (ext_screencopy_destroy_frm self) = [Released (addr b)]
    \<and> (\<forall>f. frame self = Some f \<longrightarrow>
          before (Frame_destroy f) (Pool_release (addr b)) (ext_screencopy_destroy_frm self))
    \<and> (\<forall>s. session self = Some s \<longrightarrow>
          before (Session_destroy s) (Pool_release (addr b))
            (ext_screencopy_destroy_frm self))
    \<and> before (Pool_release (addr b)) Free (ext_screencopy_destroy_frm self))
   \<and> (buffer self' = Some b' \<longrightarrow>
      ext_screencopy_destroy_ses self'
        = (case session self' of Some s \<Rightarrow> [Session_destroy s] | None \<Rightarrow> [])
          @ [Pool_release (addr b'), Free]
    \<and> disposals (ext_screencopy_destroy_ses self') = [Released (addr b')]
    \<and> (\<forall>s. session self' = Some s \<longrightarrow>
          before (Session_destroy s) (Pool_release (addr b'))
            (ext_screencopy_destroy_ses self'))
    \<and> before (Pool_release (addr b')) Free (ext_screencopy_destroy_ses self'))"
  by (auto simp: ext_screencopy_destroy_frm_def ext_screencopy_destroy_ses_def before_def
           split: option.splits)

theorem destroy_releases_buffer_after_protocol_objects_witness:
  "buffer capturing_frm = Some buf_A
   \<and> disposals (ext_screencopy_destroy_frm capturing_frm) = [Released 100]
   \<and> before (Frame_destroy 5) (Pool_release 100) (ext_screencopy_destroy_frm capturing_frm)
   \<and> before (Session_destroy 3) (Pool_release 100) (ext_screencopy_destroy_frm capturing_frm)
   \<and> before (Pool_release 100) Free (ext_screencopy_destroy_frm capturing_frm)
   \<and> buffer capturing_ses = Some buf_A
   \<and> disposals (ext_screencopy_destroy_ses capturing_ses) = [Released 100]
   \<and> before (Session_destroy 3) (Pool_release 100) (ext_screencopy_destroy_ses capturing_ses)
   \<and> before (Pool_release 100) Free (ext_screencopy_destroy_ses capturing_ses)"
proof -
  have h: "buffer capturing_frm = Some buf_A" "buffer capturing_ses = Some buf_A"
    "frame capturing_frm = Some 5" "session capturing_frm = Some 3"
    "session capturing_ses = Some 3" "addr buf_A = 100"
    by (simp_all add: example_defs)
  from destroy_releases_buffer_after_protocol_objects
         [of capturing_frm buf_A capturing_ses buf_A] h
  show ?thesis by (simp add: before_def)
qed

subsection \<open>Completion\<close>

text \<open>
  C8, as the claim states it, fails in both dialects: the region the ready handler hands to the
  registry-wide damage operation is not the full output region. After a deferred start, a
  negotiation of 1920 by 1080 and one damage event for a rectangle of 16 by 8, the handler
  passes that one rectangle, the frame damage of the buffer, and makes no call with the full
  region.
\<close>

theorem ready_registry_region_counterexample:
  "(case run_frm (negotiate_frm @ [(env_ok, Damage_frm 0 0 16 8)]) created_frm of
      Inl a \<Rightarrow> False
    | Inr (self, c) \<Rightarrow>
        full_region self = [(0, 0, 1920, 1080)] \<and>
        (case frame_handle_ready self 5 of
           Inl a \<Rightarrow> False
         | Inr (self1, c1) \<Rightarrow>
             Registry_damage_all [(0, 0, 16, 8)] WV_BUFFER_DOMAIN_OUTPUT \<in> set c1
             \<and> Registry_damage_all (full_region self) WV_BUFFER_DOMAIN_OUTPUT \<notin> set c1))
   \<and> (case run_ses (negotiate_ses @ [(env_ok, Damage_ses 0 0 16 8)]) created_ses of
      Inl a \<Rightarrow> False
    | Inr (self, c) \<Rightarrow>
        full_region self = [(0, 0, 1920, 1080)] \<and>
        (case session_handle_ready self of
           Inl a \<Rightarrow> False
         | Inr (self1, c1) \<Rightarrow>
             Registry_damage_all [(0, 0, 16, 8)] WV_BUFFER_DOMAIN_OUTPUT \<in> set c1
             \<and> Registry_damage_all (full_region self) WV_BUFFER_DOMAIN_OUTPUT \<notin> set c1))"
  by (simp add: example_defs frm_defs ses_defs shared_defs full_region_def Let_def)

text \<open>
  C8, amended. On a ready event with a buffer in flight (in the frame dialect: for the frame
  that is open), the handler hands the buffer's own accumulated frame-damage region, not the
  full output or cursor region, to the registry-wide damage operation, together with the domain
  of the capture (cursor for a cursor capture, output otherwise); it then clears the buffer's
  requested-damage region, empties the in-flight slot, and invokes the completion callback
  last, with result done and that buffer, whose requested damage is empty by then and whose
  frame damage is untouched. Nothing else in the object changes. What the registry operation
  does with the region belongs to the pool's code.
\<close>

theorem ready_passes_frame_damage_clears_detaches_delivers:
  "(buffer self = Some b \<and> frame self = Some fr \<longrightarrow>
      frame_handle_ready self fr
        = Inr (self\<lparr>buffer := None, frame := None\<rparr>,
               [Frame_destroy fr, Nvnc_log ''Ready!'',
                Registry_damage_all (frame_damage b)
                  (if capture_cursor self then WV_BUFFER_DOMAIN_CURSOR
                   else WV_BUFFER_DOMAIN_OUTPUT),
                Region_clear (addr b),
                On_done SCREENCOPY_DONE (Some (b\<lparr>buffer_damage := []\<rparr>))]))
   \<and> (buffer self' = Some b' \<longrightarrow>
      session_handle_ready self'
        = Inr (self'\<lparr>buffer := None\<rparr>,
               [Nvnc_log ''Ready!'',
                Registry_damage_all (frame_damage b')
                  (if capture_cursor self' then WV_BUFFER_DOMAIN_CURSOR
                   else WV_BUFFER_DOMAIN_OUTPUT),
                Region_clear (addr b'),
                On_done SCREENCOPY_DONE (Some (b'\<lparr>buffer_damage := []\<rparr>))]))"
  by (simp add: frame_handle_ready_def session_handle_ready_def capture_domain_def)

theorem ready_passes_frame_damage_clears_detaches_delivers_witness:
  "buffer (capturing_frm\<lparr>buffer := Some (buf_A\<lparr>frame_damage := [(0, 0, 16, 8)]\<rparr>)\<rparr>)
     = Some (buf_A\<lparr>frame_damage := [(0, 0, 16, 8)]\<rparr>)
   \<and> frame (capturing_frm\<lparr>buffer := Some (buf_A\<lparr>frame_damage := [(0, 0, 16, 8)]\<rparr>)\<rparr>)
     = Some 5
   \<and> frame_handle_ready
        (capturing_frm\<lparr>buffer := Some (buf_A\<lparr>frame_damage := [(0, 0, 16, 8)]\<rparr>)\<rparr>) 5
       = Inr (capturing_frm\<lparr>buffer := None, frame := None\<rparr>,
              [Frame_destroy 5, Nvnc_log ''Ready!'',
               Registry_damage_all [(0, 0, 16, 8)] WV_BUFFER_DOMAIN_OUTPUT, Region_clear 100,
               On_done SCREENCOPY_DONE
                 (Some (buf_A\<lparr>buffer_damage := [], frame_damage := [(0, 0, 16, 8)]\<rparr>))])
   \<and> buffer capturing_ses = Some buf_A
   \<and> session_handle_ready capturing_ses
       = Inr (capturing_ses\<lparr>buffer := None\<rparr>,
              [Nvnc_log ''Ready!'',
               Registry_damage_all [] WV_BUFFER_DOMAIN_OUTPUT, Region_clear 100,
               On_done SCREENCOPY_DONE (Some (buf_A\<lparr>buffer_damage := []\<rparr>))])"
proof -
  have h: "buffer (capturing_frm\<lparr>buffer := Some (buf_A\<lparr>frame_damage := [(0, 0, 16, 8)]\<rparr>)\<rparr>)
             = Some (buf_A\<lparr>frame_damage := [(0, 0, 16, 8)]\<rparr>)"
    "frame (capturing_frm\<lparr>buffer := Some (buf_A\<lparr>frame_damage := [(0, 0, 16, 8)]\<rparr>)\<rparr>)
       = Some 5"
    "buffer capturing_ses = Some buf_A"
    "\<not> capture_cursor capturing_frm" "\<not> capture_cursor capturing_ses"
    "addr buf_A = 100" "frame_damage buf_A = []"
    by (simp_all add: example_defs)
  from ready_passes_frame_damage_clears_detaches_delivers
         [of "capturing_frm\<lparr>buffer := Some (buf_A\<lparr>frame_damage := [(0, 0, 16, 8)]\<rparr>)\<rparr>"
             "buf_A\<lparr>frame_damage := [(0, 0, 16, 8)]\<rparr>" 5 capturing_ses buf_A] h
  show ?thesis by simp
qed

subsection \<open>Dispatch\<close>

text \<open>
  C6. \<^verbatim>\<open>screencopy_create\<close> consults the manager globals once and calls exactly one backend:
  the \<^verbatim>\<open>create\<close> entry of \<^verbatim>\<open>ext_screencopy_impl\<close> when both of that backend's managers are bound,
  otherwise the \<^verbatim>\<open>create\<close> entry of \<^verbatim>\<open>wlr_screencopy_impl\<close> when its manager is bound, and it
  returns null, calling nothing, when neither is available. With the frame dialect as the first
  backend, the result is that backend's handle whenever the allocator, the pool and the
  compositor supply their objects (and null otherwise, without falling back), and the handle
  keeps pointing at that backend's function table over every history of events. The cursor
  variant goes through the table it is given and returns null for a backend without cursor
  capture.
\<close>

theorem screencopy_create_picks_one_backend:
  "(ext_screencopy_manager g \<and> ext_image_source_manager g \<longrightarrow>
      screencopy_create g ext_impl wlr_impl e output rc = create ext_impl e output rc)
   \<and> (\<not> (ext_screencopy_manager g \<and> ext_image_source_manager g) \<and> screencopy_manager g \<longrightarrow>
      screencopy_create g ext_impl wlr_impl e output rc = create wlr_impl e output rc)
   \<and> (\<not> (ext_screencopy_manager g \<and> ext_image_source_manager g) \<and> \<not> screencopy_manager g \<longrightarrow>
      screencopy_create g ext_impl wlr_impl e output rc = (None, []))
   \<and> (ext_screencopy_manager g \<and> ext_image_source_manager g \<longrightarrow>
      screencopy_create g ext_screencopy_impl_frm wlr_f e output rc
        = ext_screencopy_create_frm e output rc
      \<and> (calloc_ok e \<and> new_pool e \<noteq> None \<and> new_source e \<noteq> None \<and> new_session e \<noteq> None \<longrightarrow>
           (\<exists>h c. screencopy_create g ext_screencopy_impl_frm wlr_f e output rc = (Some h, c)
               \<and> impl (parent h) = Some EXT_SCREENCOPY_IMPL
               \<and> render_cursors h = rc \<and> wl_output h = output
               \<and> session h = new_session e \<and> buffer h = None \<and> frame h = None
               \<and> (\<forall>evs h' c'. run_frm evs h = Inr (h', c') \<longrightarrow>
                     impl (parent h') = Some EXT_SCREENCOPY_IMPL)))
      \<and> (\<not> (calloc_ok e \<and> new_pool e \<noteq> None \<and> new_source e \<noteq> None \<and> new_session e \<noteq> None)
           \<longrightarrow> fst (screencopy_create g ext_screencopy_impl_frm wlr_f e output rc) = None))
   \<and> (create_cursor any_impl = None \<longrightarrow>
        screencopy_create_cursor any_impl e output = (None, []))
   \<and> screencopy_create_cursor ext_screencopy_impl_frm e output
       = ext_screencopy_create_cursor_frm e output"
proof -
  have sel: "ext_screencopy_manager g \<and> ext_image_source_manager g \<Longrightarrow>
      screencopy_create g ext_screencopy_impl_frm wlr_f e output rc
        = ext_screencopy_create_frm e output rc"
    by (simp add: screencopy_create_def ext_screencopy_impl_frm_def)
  have ok: "\<exists>h c. ext_screencopy_create_frm e output rc = (Some h, c)
               \<and> impl (parent h) = Some EXT_SCREENCOPY_IMPL
               \<and> render_cursors h = rc \<and> wl_output h = output
               \<and> session h = new_session e \<and> buffer h = None \<and> frame h = None
               \<and> (\<forall>evs h' c'. run_frm evs h = Inr (h', c') \<longrightarrow>
                     impl (parent h') = Some EXT_SCREENCOPY_IMPL)"
    if "calloc_ok e" "new_pool e \<noteq> None" "new_source e \<noteq> None" "new_session e \<noteq> None"
  proof -
    from that obtain h c where hc: "ext_screencopy_create_frm e output rc = (Some h, c)"
      by (auto simp: ext_screencopy_create_frm_def ext_screencopy_init_session_frm_def Let_def)
    note cr = create_frm_books [OF hc]
    have "frame h = None"
      using cr(1,2) by (simp add: inv_frm_def)
    moreover have "impl (parent h') = Some EXT_SCREENCOPY_IMPL"
      if "run_frm evs h = Inr (h', c')" for evs h' c'
      using run_frm_books [OF cr(1) that] cr(4) by simp
    ultimately show ?thesis
      using hc cr by blast
  qed
  have bad: "fst (ext_screencopy_create_frm e output rc) = None"
    if "\<not> (calloc_ok e \<and> new_pool e \<noteq> None \<and> new_source e \<noteq> None \<and> new_session e \<noteq> None)"
    using that
    by (auto simp: ext_screencopy_create_frm_def ext_screencopy_init_session_frm_def Let_def
             split: option.splits)
  have gen: "(ext_screencopy_manager g \<and> ext_image_source_manager g \<longrightarrow>
      screencopy_create g ext_impl wlr_impl e output rc = create ext_impl e output rc)
   \<and> (\<not> (ext_screencopy_manager g \<and> ext_image_source_manager g) \<and> screencopy_manager g \<longrightarrow>
      screencopy_create g ext_impl wlr_impl e output rc = create wlr_impl e output rc)
   \<and> (\<not> (ext_screencopy_manager g \<and> ext_image_source_manager g) \<and> \<not> screencopy_manager g \<longrightarrow>
      screencopy_create g ext_impl wlr_impl e output rc = (None, []))"
    by (simp add: screencopy_create_def)
  have cur: "(create_cursor any_impl = None \<longrightarrow>
        screencopy_create_cursor any_impl e output = (None, []))
   \<and> screencopy_create_cursor ext_screencopy_impl_frm e output
       = ext_screencopy_create_cursor_frm e output"
    by (simp add: screencopy_create_cursor_def ext_screencopy_impl_frm_def)
  from gen sel ok bad cur show ?thesis
    by (auto simp del: not_None_eq)
qed

theorem screencopy_create_picks_one_backend_witness:
  "screencopy_create
      \<lparr>screencopy_manager = True, ext_image_source_manager = True,
       ext_screencopy_manager = True\<rparr>
      ext_screencopy_impl_frm ext_screencopy_impl_frm env_ok 7 False
     = (Some created_frm,
        [Pool_create (Some 1), Create_source 7 (Some 2), Create_session 2 [] (Some 3),
         Source_destroy 2, Session_add_listener 3])
   \<and> screencopy_create
      \<lparr>screencopy_manager = True, ext_image_source_manager = False,
       ext_screencopy_manager = True\<rparr>
      ext_screencopy_impl_ses
      (ext_screencopy_impl_ses\<lparr>create := \<lambda>e output rc. (None, [Free])\<rparr>) env_ok 7 False
     = (None, [Free])
   \<and> screencopy_create
      \<lparr>screencopy_manager = False, ext_image_source_manager = False,
       ext_screencopy_manager = True\<rparr>
      ext_screencopy_impl_frm ext_screencopy_impl_frm env_ok 7 False
     = (None, [])"
proof -
  note a = screencopy_create_picks_one_backend
             [of "\<lparr>screencopy_manager = True, ext_image_source_manager = True,
                   ext_screencopy_manager = True\<rparr>"
                 ext_screencopy_impl_frm ext_screencopy_impl_frm env_ok 7 False
                 ext_screencopy_impl_frm ext_screencopy_impl_frm]
  note b = screencopy_create_picks_one_backend
             [of "\<lparr>screencopy_manager = True, ext_image_source_manager = False,
                   ext_screencopy_manager = True\<rparr>"
                 ext_screencopy_impl_ses
                 "ext_screencopy_impl_ses\<lparr>create := \<lambda>e output rc. (None, [Free])\<rparr>"
                 env_ok 7 False ext_screencopy_impl_frm ext_screencopy_impl_frm]
  note c = screencopy_create_picks_one_backend
             [of "\<lparr>screencopy_manager = False, ext_image_source_manager = False,
                   ext_screencopy_manager = True\<rparr>"
                 ext_screencopy_impl_frm ext_screencopy_impl_frm env_ok 7 False
                 ext_screencopy_impl_frm ext_screencopy_impl_frm]
  have "create ext_screencopy_impl_frm = ext_screencopy_create_frm"
    by (simp add: ext_screencopy_impl_frm_def)
  with a b c create_frm_example show ?thesis
    by simp
qed

text \<open>
  C9. Through the dispatcher, start of either dialect never returns a status other than 0,
  whether it defers the capture or schedules it. The session dialect always returns; the frame
  dialect returns unless one of the two assertions of \<^verbatim>\<open>ext_screencopy_schedule_capture\<close> fails,
  which needs known buffer info and either an open frame or a compositor that hands out no
  frame.
\<close>

theorem start_always_returns_zero:
  "(case screencopy_start ext_screencopy_impl_frm e self immediate of
      Inl a \<Rightarrow> have_buffer_info self \<and> (frame self \<noteq> None \<or> new_frame e = None)
    | Inr (self1, status, c) \<Rightarrow> status = 0)
   \<and> (case screencopy_start ext_screencopy_impl_ses e2 self2 immediate2 of
      Inl a \<Rightarrow> False
    | Inr (self1, status, c) \<Rightarrow> status = 0)"
  by (auto simp: screencopy_start_def ext_screencopy_impl_frm_def ext_screencopy_impl_ses_def
                 ext_screencopy_start_frm_def ext_screencopy_start_ses_def
                 ext_screencopy_schedule_capture_frm_def
                 ext_screencopy_schedule_capture_ses_def Let_def
           split: sum.splits option.splits if_splits prod.splits)

theorem start_always_returns_zero_witness:
  "(\<exists>s c. screencopy_start ext_screencopy_impl_frm env_ok created_frm True = Inr (s, 0, c))
   \<and> (\<exists>s c. screencopy_start ext_screencopy_impl_frm env_next
               (capturing_frm\<lparr>buffer := None, frame := None\<rparr>) False = Inr (s, 0, c))
   \<and> screencopy_start ext_screencopy_impl_frm env_next capturing_frm False
       = Inl Assertion_failed
   \<and> (\<exists>s c. screencopy_start ext_screencopy_impl_ses env_ok created_ses True = Inr (s, 0, c))
   \<and> (\<exists>s c. screencopy_start ext_screencopy_impl_ses env_next capturing_ses False
               = Inr (s, 0, c))"
proof -
  have h: "\<not> have_buffer_info created_frm" "new_frame env_next \<noteq> None"
    "frame (capturing_frm\<lparr>buffer := None, frame := None\<rparr>) = None"
    "have_buffer_info capturing_frm" "frame capturing_frm \<noteq> None"
    by (simp_all add: example_defs)
  have x: "screencopy_start ext_screencopy_impl_frm env_next capturing_frm False
             = Inl Assertion_failed"
    using h(4,5)
    by (simp add: screencopy_start_def ext_screencopy_impl_frm_def
                  ext_screencopy_start_frm_def ext_screencopy_schedule_capture_frm_def)
  from start_always_returns_zero
      [where e = env_ok and self = created_frm and immediate = True
         and ?e2.0 = env_ok and ?self2.0 = created_ses and ?immediate2.0 = True]
    start_always_returns_zero
      [where e = env_next and self = "capturing_frm\<lparr>buffer := None, frame := None\<rparr>"
         and immediate = False
         and ?e2.0 = env_next and ?self2.0 = capturing_ses and ?immediate2.0 = False]
    h x
  show ?thesis
    by (auto split: sum.splits)
qed

end
